theory Spec2Isabelle
  imports Complex_Main "HOL-Library.Word"
begin

section \<open>The JavaScript values that \<open>download\<close> computes with\<close>

text \<open>
  The module \<^verbatim>\<open>src/mod.ts\<close> exports one function, \<^verbatim>\<open>download\<close>. It computes with
  header strings, with the numbers that \<^verbatim>\<open>Number(...)\<close> reads out of them, and with
  byte chunks. A number of the source is a double: \<open>Num n\<close> is the double whose value is
  the integer \<open>n\<close>, \<open>Frac q\<close> the double whose value is the rational \<open>q\<close>, which is no
  integer; then there are the two infinities and NaN. Negative zero is not told from
  zero: the function prints both alike, tests both alike and cuts a chunk alike by both.
  Every function below that yields a number yields a double, by rounding.
\<close>

datatype number = Num int | Frac rat | Infinity | NegInfinity | NaN

subsection \<open>Rounding to a double\<close>

function power_rat :: "rat \<Rightarrow> int \<Rightarrow> rat" where
  "power_rat x k =
     (if k \<le> 0 then 1
      else if even k then power_rat (x * x) (k div 2)
      else x * power_rat (x * x) (k div 2))"
  by pat_completeness auto
termination
  by (relation "measure (\<lambda>(x, k). nat k)") auto

declare power_rat.simps [simp del]

text \<open>\<open>pow x k\<close> is \<open>x\<close> to the power \<open>k\<close>, for an exponent of either sign.\<close>

definition pow :: "rat \<Rightarrow> int \<Rightarrow> rat" where
  "pow x k = (if 0 \<le> k then power_rat x k else 1 / power_rat x (- k))"

text \<open>The number of digits of \<open>n\<close> in base \<open>b\<close>.\<close>

function ndigits :: "int \<Rightarrow> int \<Rightarrow> int" where
  "ndigits b n = (if n \<le> 0 \<or> b < 2 then 0 else 1 + ndigits b (n div b))"
  by pat_completeness auto
termination
  by (relation "measure (\<lambda>(b, n). nat n)") (auto intro: int_div_less_self)

declare ndigits.simps [simp del]

text \<open>
  For a positive \<open>q\<close>, the exponent \<open>e\<close> with \<open>b^e \<le> q < b^(e+1)\<close>: the digit counts of
  numerator and denominator give it up to one, and a comparison settles it.
\<close>

definition floor_log :: "int \<Rightarrow> rat \<Rightarrow> int" where
  "floor_log b q =
     (case quotient_of q of (n, d) \<Rightarrow>
        let e = ndigits b n - ndigits b d
        in if pow (of_int b) e \<le> q then e else e - 1)"

definition round_half_even :: "rat \<Rightarrow> int" where
  "round_half_even q =
     (let f = \<lfloor>q\<rfloor>; d = q - of_int f
      in if d < 1 / 2 then f else if 1 / 2 < d then f + 1 else if even f then f else f + 1)"

text \<open>
  The double nearest to a rational, ties going to the even significand: 53 bits of
  significand, the least exponent \<open>-1022\<close> (below it the doubles are evenly spaced),
  and an infinity from \<open>2^1024\<close> on.
\<close>

definition double :: "rat \<Rightarrow> number" where
  "double q =
     (if q = 0 then Num 0
      else
        let a = \<bar>q\<bar>;
            e = max (floor_log 2 a) (- 1022);
            ulp = pow 2 (e - 52);
            r = of_int (round_half_even (a / ulp)) * ulp
        in if pow 2 1024 \<le> r then (if 0 < q then Infinity else NegInfinity)
           else
             let v = (if 0 < q then r else - r)
             in if of_int \<lfloor>v\<rfloor> = v then Num \<lfloor>v\<rfloor> else Frac v)"

text \<open>An integer as a double: up to \<open>2^53\<close> in size every integer is one.\<close>

definition integer :: "int \<Rightarrow> number" where
  "integer n = (if \<bar>n\<bar> \<le> 2 ^ 53 then Num n else double (of_int n))"

subsection \<open>Arithmetic\<close>

fun neg :: "number \<Rightarrow> number" where
  "neg (Num a) = Num (- a)"
| "neg (Frac q) = Frac (- q)"
| "neg Infinity = NegInfinity"
| "neg NegInfinity = Infinity"
| "neg NaN = NaN"

text \<open>The operator \<^verbatim>\<open>+\<close> on two numbers: the exact sum, rounded.\<close>

fun add :: "number \<Rightarrow> number \<Rightarrow> number" where
  "add (Num a) (Num b) = integer (a + b)"
| "add (Num a) (Frac q) = double (of_int a + q)"
| "add (Frac p) (Num b) = double (p + of_int b)"
| "add (Frac p) (Frac q) = double (p + q)"
| "add NaN _ = NaN"
| "add _ NaN = NaN"
| "add Infinity NegInfinity = NaN"
| "add NegInfinity Infinity = NaN"
| "add Infinity _ = Infinity"
| "add _ Infinity = Infinity"
| "add NegInfinity _ = NegInfinity"
| "add _ NegInfinity = NegInfinity"

text \<open>The operator \<^verbatim>\<open>-\<close> on two numbers.\<close>

definition sub :: "number \<Rightarrow> number \<Rightarrow> number" where
  "sub a b = add a (neg b)"

text \<open>Truthiness of a number, as \<^verbatim>\<open>||\<close> tests it: zero and NaN are falsy.\<close>

fun truthy :: "number \<Rightarrow> bool" where
  "truthy (Num a) = (a \<noteq> 0)"
| "truthy (Frac q) = (q \<noteq> 0)"
| "truthy NaN = False"
| "truthy _ = True"

subsection \<open>Strings\<close>

definition digit_char :: "nat \<Rightarrow> char" where
  "digit_char d = ''0123456789'' ! d"

function digits :: "nat \<Rightarrow> string" where
  "digits n = (if n < 10 then [digit_char n] else digits (n div 10) @ [digit_char (n mod 10)])"
  by pat_completeness auto
termination
  by (relation "measure id") auto

declare digits.simps [simp del]

text \<open>The decimal digits of an integer that is not negative.\<close>

function decimal :: "int \<Rightarrow> string" where
  "decimal n =
     (if n < 10 then [digit_char (nat n)] else decimal (n div 10) @ [digit_char (nat (n mod 10))])"
  by pat_completeness auto
termination
  by (relation "measure nat") (auto intro: int_div_less_self)

declare decimal.simps [simp del]

text \<open>
  \<^verbatim>\<open>Number::toString\<close> finds for a positive double \<open>x\<close> the least number \<open>k\<close> of digits,
  and digits \<open>s\<close> with \<open>10^(k-1) \<le> s < 10^k\<close>, such that \<open>s * 10^(n-k)\<close> rounds to \<open>x\<close>;
  of two such \<open>s\<close> it takes the one nearer to \<open>x\<close>. \<open>candidate d x n k\<close> is that \<open>s\<close> for a
  given \<open>k\<close>, where \<open>10^(n-1) \<le> x < 10^n\<close> and \<open>d\<close> is the double \<open>x\<close>; it may be \<open>10^k\<close>
  itself, which stands for the one digit \<open>1\<close> at the next \<open>n\<close>. \<open>search\<close> tries \<open>k\<close>, then
  \<open>k + 1\<close>, up to seventeen digits, which tell any two doubles apart.
\<close>

definition candidate :: "number \<Rightarrow> rat \<Rightarrow> int \<Rightarrow> int \<Rightarrow> int option" where
  "candidate d x n k =
     (let t = x / pow 10 (n - k);
          lo = \<lfloor>t\<rfloor>;
          hi = lo + 1;
          ok_lo = (double (of_int lo * pow 10 (n - k)) = d);
          ok_hi = (double (of_int hi * pow 10 (n - k)) = d)
      in if ok_lo \<and> ok_hi
         then (if t - of_int lo < of_int hi - t then Some lo
               else if of_int hi - t < t - of_int lo then Some hi
               else if even lo then Some lo else Some hi)
         else if ok_lo then Some lo
         else if ok_hi then Some hi
         else None)"

function search :: "number \<Rightarrow> rat \<Rightarrow> int \<Rightarrow> int \<Rightarrow> int \<times> int" where
  "search d x n k =
     (case candidate d x n k of
        Some s \<Rightarrow> (s, k)
      | None \<Rightarrow> if 17 \<le> k then (\<lfloor>x / pow 10 (n - k)\<rfloor>, k) else search d x n (k + 1))"
  by pat_completeness auto
termination
  by (relation "measure (\<lambda>(d, x, n, k). nat (17 - k))") auto

declare search.simps [simp del]

definition shortest :: "rat \<Rightarrow> int \<times> int \<times> int" where
  "shortest x =
     (let n = floor_log 10 x + 1
      in case search (double x) x n 1 of
           (s, k) \<Rightarrow> if pow 10 k \<le> of_int s then (s div 10, k, n + 1) else (s, k, n))"

text \<open>The text of \<^verbatim>\<open>Number::toString\<close> for the digits \<open>s\<close>, their number \<open>k\<close>, and \<open>n\<close>.\<close>

definition format_digits :: "int \<times> int \<times> int \<Rightarrow> string" where
  "format_digits skn =
     (case skn of (s, k, n) \<Rightarrow>
        let ds = decimal s
        in if k \<le> n \<and> n \<le> 21 then ds @ replicate (nat (n - k)) CHR ''0''
           else if 0 < n \<and> n \<le> 21 then take (nat n) ds @ ''.'' @ drop (nat n) ds
           else if - 6 < n \<and> n \<le> 0 then ''0.'' @ replicate (nat (- n)) CHR ''0'' @ ds
           else
             let e = n - 1;
                 es = (if e < 0 then ''-'' else ''+'') @ decimal \<bar>e\<bar>
             in if k = 1 then ds @ ''e'' @ es
                else take 1 ds @ ''.'' @ drop 1 ds @ ''e'' @ es)"

definition positive_toString :: "rat \<Rightarrow> string" where
  "positive_toString x = format_digits (shortest x)"

text \<open>
  A number inside a template literal, \<^verbatim>\<open>`${n}`\<close>. An integer of size up to \<open>2^53\<close>
  prints as its decimal digits: every shorter numeral is another double.
\<close>

fun toString :: "number \<Rightarrow> string" where
  "toString (Num a) =
     (if \<bar>a\<bar> \<le> 2 ^ 53 then (if a < 0 then CHR ''-'' # decimal (- a) else decimal a)
      else if a < 0 then CHR ''-'' # positive_toString (of_int (- a))
      else positive_toString (of_int a))"
| "toString (Frac q) =
     (if q < 0 then CHR ''-'' # positive_toString (- q) else positive_toString q)"
| "toString Infinity = ''Infinity''"
| "toString NegInfinity = ''-Infinity''"
| "toString NaN = ''NaN''"

text \<open>
  The white space that \<^verbatim>\<open>Number\<close> strips from both ends of a string; within the bytes
  of a header value these are tab, line feed, vertical tab, form feed, carriage return,
  space and the no-break space.
\<close>

definition isWhiteSpace :: "char \<Rightarrow> bool" where
  "isWhiteSpace c = (of_char c \<in> {9, 10, 11, 12, 13, 32, 160 :: nat})"

definition trim :: "string \<Rightarrow> string" where
  "trim s = rev (dropWhile isWhiteSpace (rev (dropWhile isWhiteSpace s)))"

text \<open>The value of a digit, also of a hexadecimal one; 16 for any other character.\<close>

definition digit_val :: "char \<Rightarrow> nat" where
  "digit_val c =
     (let n = of_char c :: nat
      in if 48 \<le> n \<and> n \<le> 57 then n - 48
         else if 97 \<le> n \<and> n \<le> 102 then n - 87
         else if 65 \<le> n \<and> n \<le> 70 then n - 55
         else 16)"

definition isDigit :: "char \<Rightarrow> bool" where
  "isDigit c = (digit_val c < 10)"

text \<open>The value of a run of digits in base \<open>b\<close>, and \<open>None\<close> when it is empty or no such run.\<close>

definition numeral_value :: "nat \<Rightarrow> string \<Rightarrow> int option" where
  "numeral_value b s =
     (if s \<noteq> [] \<and> list_all (\<lambda>c. digit_val c < b) s
      then Some (foldl (\<lambda>a c. int b * a + int (digit_val c)) 0 s)
      else None)"

text \<open>\<^verbatim>\<open>SignedInteger\<close>, and \<^verbatim>\<open>ExponentPart\<close> or nothing.\<close>

definition signed_integer :: "string \<Rightarrow> int option" where
  "signed_integer s =
     (case s of
        [] \<Rightarrow> None
      | c # r \<Rightarrow>
          if c = CHR ''+'' then numeral_value 10 r
          else if c = CHR ''-'' then map_option uminus (numeral_value 10 r)
          else numeral_value 10 s)"

definition exponent_part :: "string \<Rightarrow> int option" where
  "exponent_part s =
     (case s of
        [] \<Rightarrow> Some 0
      | c # r \<Rightarrow> if c = CHR ''e'' \<or> c = CHR ''E'' then signed_integer r else None)"

text \<open>
  \<^verbatim>\<open>StrUnsignedDecimalLiteral\<close>: \<^verbatim>\<open>Infinity\<close>, or digits with an optional fraction and an
  optional exponent, with a digit before or after the point. NaN for any other string.
\<close>

definition unsigned :: "string \<Rightarrow> number" where
  "unsigned s =
     (if s = ''Infinity'' then Infinity
      else
        let ip = takeWhile isDigit s;
            r1 = dropWhile isDigit s;
            point = (r1 \<noteq> [] \<and> hd r1 = CHR ''.'');
            fp = (if point then takeWhile isDigit (tl r1) else []);
            r2 = (if point then dropWhile isDigit (tl r1) else r1)
        in case (numeral_value 10 (ip @ fp), exponent_part r2) of
             (Some m, Some ex) \<Rightarrow>
               (let sc = ex - int (length fp)
                in if sc = 0 then integer m else double (of_int m * pow 10 sc))
           | _ \<Rightarrow> NaN)"

text \<open>\<^verbatim>\<open>NonDecimalIntegerLiteral\<close>: binary, octal or hexadecimal digits after a prefix.\<close>

definition radix_literal :: "string \<Rightarrow> int option" where
  "radix_literal s =
     (case s of
        c0 # c1 # r \<Rightarrow>
          if c0 \<noteq> CHR ''0'' then None
          else if c1 = CHR ''x'' \<or> c1 = CHR ''X'' then numeral_value 16 r
          else if c1 = CHR ''o'' \<or> c1 = CHR ''O'' then numeral_value 8 r
          else if c1 = CHR ''b'' \<or> c1 = CHR ''B'' then numeral_value 2 r
          else None
      | _ \<Rightarrow> None)"

text \<open>
  \<^verbatim>\<open>Number(s)\<close> on a string: white space is stripped; the empty string is \<open>0\<close>; a
  literal with a radix prefix, or a decimal literal with an optional sign, is its value
  rounded to a double; any other string is NaN. (For a literal of more than twenty
  significant digits the language lets an implementation round the digits first; the
  model rounds the exact value, as the engines do.)
\<close>

definition Number :: "string \<Rightarrow> number" where
  "Number s =
     (case trim s of
        [] \<Rightarrow> Num 0
      | c # r \<Rightarrow>
          (case radix_literal (c # r) of
             Some n \<Rightarrow> integer n
           | None \<Rightarrow>
               if c = CHR ''-'' then neg (unsigned r)
               else if c = CHR ''+'' then unsigned r
               else unsigned (c # r)))"

text \<open>\<^verbatim>\<open>Number(v)\<close> on the result of \<^verbatim>\<open>Headers.get\<close>: \<^verbatim>\<open>Number(null)\<close> is \<open>0\<close>.\<close>

definition Number_nullable :: "string option \<Rightarrow> number" where
  "Number_nullable v = (case v of None \<Rightarrow> Num 0 | Some s \<Rightarrow> Number s)"

text \<open>\<^verbatim>\<open>s.indexOf(c)\<close> for a one-character search string: the first index, or \<open>-1\<close>.\<close>

fun indexOf_from :: "string \<Rightarrow> char \<Rightarrow> int \<Rightarrow> int" where
  "indexOf_from [] c i = - 1"
| "indexOf_from (x # xs) c i = (if x = c then i else indexOf_from xs c (i + 1))"

definition indexOf :: "string \<Rightarrow> char \<Rightarrow> int" where
  "indexOf s c = indexOf_from s c 0"

text \<open>
  \<^verbatim>\<open>s.substring(a, b)\<close>: both indices are clamped to \<open>[0, length]\<close>, an absent
  (\<^verbatim>\<open>undefined\<close>) end is the length, and the two are swapped when the first is larger.
\<close>

definition clamp :: "string \<Rightarrow> int \<Rightarrow> nat" where
  "clamp s i = nat (min (max i 0) (int (length s)))"

definition substring :: "string \<Rightarrow> int \<Rightarrow> int option \<Rightarrow> string" where
  "substring s a b =
     (let fs = clamp s a;
          fe = (case b of None \<Rightarrow> length s | Some e \<Rightarrow> clamp s e);
          from = min fs fe;
          to = max fs fe
      in take (to - from) (drop from s))"

definition startsWith :: "string \<Rightarrow> string \<Rightarrow> bool" where
  "startsWith s p = (take (length p) s = p)"

subsection \<open>Header lists\<close>

text \<open>
  A \<^verbatim>\<open>Headers\<close> object is a list of name and value in the order of insertion.
  \<^verbatim>\<open>get(name)\<close> compares names without regard to ASCII case, strips HTTP white space
  from both ends of each value and joins the values of one name with a comma and a
  space; it is \<^verbatim>\<open>null\<close> when the name is absent.
\<close>

type_synonym Headers = "(string \<times> string) list"

definition toLower :: "char \<Rightarrow> char" where
  "toLower c =
     (case map_of (zip ''ABCDEFGHIJKLMNOPQRSTUVWXYZ'' ''abcdefghijklmnopqrstuvwxyz'') c of
        None \<Rightarrow> c
      | Some l \<Rightarrow> l)"

definition isHttpWhitespace :: "char \<Rightarrow> bool" where
  "isHttpWhitespace c = (of_char c \<in> {9, 10, 13, 32 :: nat})"

definition normalize :: "string \<Rightarrow> string" where
  "normalize v = rev (dropWhile isHttpWhitespace (rev (dropWhile isHttpWhitespace v)))"

fun join :: "string list \<Rightarrow> string" where
  "join [] = []"
| "join [v] = v"
| "join (v # vs) = v @ '', '' @ join vs"

definition get :: "Headers \<Rightarrow> string \<Rightarrow> string option" where
  "get h name =
     (let vs = map (normalize \<circ> snd) (filter (\<lambda>kv. map toLower (fst kv) = map toLower name) h)
      in if vs = [] then None else Some (join vs))"

subsection \<open>The value of \<open>init.headers\<close>\<close>

text \<open>
  \<^verbatim>\<open>init.headers\<close> is a \<^verbatim>\<open>HeadersInit\<close>: a plain object, a \<^verbatim>\<open>Headers\<close> instance, or
  an array of pairs of name and value. A plain object is the list of its own enumerable
  properties with string keys, in property order, each key once; a property holds a
  string, or an array of strings (such properties arise on line 122, see \<open>spread\<close>).
\<close>

datatype property = Text string | Array "string list"

type_synonym object = "(string \<times> property) list"

datatype HeadersInit = Object object | Instance Headers | Pairs "(string \<times> string) list"

text \<open>A property value converted to a string: an array gives its elements with commas between.\<close>

fun comma_separated :: "string list \<Rightarrow> string" where
  "comma_separated [] = []"
| "comma_separated [v] = v"
| "comma_separated (v # vs) = v @ '','' @ comma_separated vs"

fun to_text :: "property \<Rightarrow> string" where
  "to_text (Text s) = s"
| "to_text (Array vs) = comma_separated vs"

text \<open>
  \<^verbatim>\<open>new Headers(h)\<close>: the header list made from a \<^verbatim>\<open>HeadersInit\<close>. A plain object gives
  one header for each property, an instance and an array of pairs give their pairs.
  (Names and values that are no valid header, and an array element that is no pair, make
  \<^verbatim>\<open>fetch\<close> reject on line 46 already.)
\<close>

fun entries :: "HeadersInit \<Rightarrow> Headers" where
  "entries (Object props) = map (\<lambda>kv. (fst kv, to_text (snd kv))) props"
| "entries (Instance h) = h"
| "entries (Pairs ps) = ps"

text \<open>
  The spread \<^verbatim>\<open>{ ...init.headers }\<close> of line 122 copies the own enumerable properties of
  its operand. Those of a plain object are its properties. A \<^verbatim>\<open>Headers\<close> instance
  holds its header list out of reach of the spread and has no such property with a
  string key: no header is copied. Those of an array are its elements under the keys
  \<open>0\<close>, \<open>1\<close>, ..., here each a pair, an array of two strings.
\<close>

fun spread :: "HeadersInit option \<Rightarrow> object" where
  "spread None = []"
| "spread (Some (Object props)) = props"
| "spread (Some (Instance h)) = []"
| "spread (Some (Pairs ps)) =
     zip (map (\<lambda>n. decimal (int n)) [0 ..< length ps]) (map (\<lambda>kv. Array [fst kv, snd kv]) ps)"

text \<open>
  Writing a property of a plain object, as the object literal of lines 121 to 125 does
  after the spread: an existing key keeps its place and takes the new value, a new key
  goes to the end. Keys are compared exactly, as object keys are.
\<close>

fun set_property :: "object \<Rightarrow> string \<Rightarrow> property \<Rightarrow> object" where
  "set_property [] k v = [(k, v)]"
| "set_property ((k', v') # h) k v =
     (if k' = k then (k, v) # h else (k', v') # set_property h k v)"

section \<open>The environment: \<open>fetch\<close>, response bodies, the output stream, the signal\<close>

type_synonym Uint8Array = "8 word list"

datatype error = TypeError string | DOMException string

text \<open>
  A response body produces some chunks and then either ends or fails with an error.
  A response may have no body (\<^verbatim>\<open>response.body\<close> is \<^verbatim>\<open>null\<close>).
\<close>

datatype ending = Ends | Fails string

record ReadableStream =
  chunks :: "Uint8Array list"
  ending :: ending

record Response =
  status :: nat
  statusText :: string
  response_headers :: Headers
  body :: "ReadableStream option"

text \<open>
  Of the caller's \<^verbatim>\<open>init\<close> object the function reads and writes \<^verbatim>\<open>headers\<close>
  (\<open>None\<close> is \<^verbatim>\<open>undefined\<close>), and reads \<^verbatim>\<open>signal\<close>.
\<close>

record RequestInit =
  headers :: "HeadersInit option"

text \<open>
  The environment answers the calls of \<^verbatim>\<open>fetch\<close>: \<open>fetch env n init\<close> is the outcome
  of the call made after \<open>n\<close> earlier ones, with \<open>init\<close> as it is at that moment
  (\<open>Inl\<close> when the promise rejects). \<open>aborted env n\<close> is the value of
  \<^verbatim>\<open>init.signal?.aborted\<close> when line 118 reads it after \<open>n\<close> calls of \<^verbatim>\<open>fetch\<close>
  (always \<open>False\<close> when the caller gave no signal).
\<close>

record env =
  fetch :: "nat \<Rightarrow> RequestInit \<Rightarrow> error + Response"
  aborted :: "nat \<Rightarrow> bool"

text \<open>
  Line 48 makes an identity \<^verbatim>\<open>TransformStream\<close>; the caller gets its readable side and
  the function keeps the writable side. The model holds the state of the writable side,
  which is what the reader of the other side sees (\<open>Errored\<close> with the reason of the
  abort), the chunks written to it, and the calls of \<^verbatim>\<open>close\<close> and \<^verbatim>\<open>abort\<close> that
  \<^verbatim>\<open>download\<close> itself makes on it. The reader is taken to consume each chunk as it
  is written.
\<close>

datatype stream_state = Writable | Closed | Errored string

datatype call = Close | Abort string

record identity_stream =
  state :: stream_state
  enqueued :: "Uint8Array list"
  calls :: "call list"

definition new_TransformStream :: identity_stream where
  "new_TransformStream = \<lparr>state = Writable, enqueued = [], calls = []\<rparr>"

text \<open>\<^verbatim>\<open>writable.abort(reason)\<close> errors a writable stream and leaves any other as it is.\<close>

definition abort :: "string \<Rightarrow> identity_stream \<Rightarrow> identity_stream" where
  "abort reason w =
     w\<lparr>calls := calls w @ [Abort reason],
       state := (if state w = Writable then Errored reason else state w)\<rparr>"

text \<open>
  \<^verbatim>\<open>writable.close()\<close> closes a writable stream; on any other it rejects. The first
  component says whether the promise resolves.
\<close>

definition close :: "identity_stream \<Rightarrow> bool \<times> identity_stream" where
  "close w =
     (state w = Writable,
      w\<lparr>calls := calls w @ [Close],
        state := (if state w = Writable then Closed else state w)\<rparr>)"

section \<open>The session\<close>

text \<open>
  The mutable variables of \<^verbatim>\<open>download\<close> and the caller's \<^verbatim>\<open>init\<close> object, together
  with the log of the requests issued: \<open>requests\<close> holds \<^verbatim>\<open>init\<close> as it was at each call
  of \<^verbatim>\<open>fetch\<close>, oldest first.
\<close>

record session =
  init :: RequestInit
  currentSize :: number
  bytesLeft :: number
  writable :: identity_stream
  requests :: "RequestInit list"

subsection \<open>Lines 63 to 93: the two header parsers\<close>

record byte_range =
  start :: number
  end' :: number

record content_range = byte_range +
  total :: number

text \<open>\<^verbatim>\<open>new Headers(init.headers).get(name)\<close>: a header of the request that \<^verbatim>\<open>init\<close> describes.\<close>

definition request_header :: "RequestInit \<Rightarrow> string \<Rightarrow> string option" where
  "request_header i name = get (case headers i of None \<Rightarrow> [] | Some h \<Rightarrow> entries h) name"

definition range' :: "RequestInit \<Rightarrow> byte_range option" where
  "range' i =
     (case request_header i ''range'' of
        None \<Rightarrow> None
      | Some r \<Rightarrow>
          let dashIndex = indexOf r CHR ''-'';
              commaIndex = (let k = max (indexOf r CHR '','') 0 in if k = 0 then None else Some k)
          in Some \<lparr>start = Number (substring r 0 (Some dashIndex)),
                   end' = Number (substring r (dashIndex + 1) commaIndex)\<rparr>)"

definition contentRange :: "Response \<Rightarrow> error + content_range option" where
  "contentRange response =
     (case get (response_headers response) ''content-range'' of
        None \<Rightarrow> Inr None
      | Some cr \<Rightarrow>
          if \<not> startsWith cr ''bytes ''
          then Inl (TypeError (''Content-Range header has unsupported unit: '' @ cr))
          else
            let dashIndex = indexOf cr CHR ''-'';
                slashIndex = indexOf cr CHR ''/'';
                totalSize = substring cr slashIndex None
            in Inr (Some \<lparr>start = Number (substring cr 6 (Some dashIndex)),
                           end' = Number (substring cr (dashIndex + 1) (Some slashIndex)),
                           total = (if totalSize = ''*'' then Infinity else Number cr)\<rparr>))"

subsection \<open>Lines 95 to 98: the initial counters\<close>

definition initial_currentSize :: "content_range option \<Rightarrow> number" where
  "initial_currentSize cr = (case cr of None \<Rightarrow> Num 0 | Some c \<Rightarrow> start c)"

definition initial_bytesLeft :: "content_range option \<Rightarrow> Response \<Rightarrow> number" where
  "initial_bytesLeft cr response =
     (case cr of
        None \<Rightarrow>
          (let n = Number_nullable (get (response_headers response) ''content-length'')
           in if truthy n then n else Infinity)
      | Some c \<Rightarrow> sub (end' c) (start c))"

subsection \<open>Lines 103 to 114: the pipe\<close>

text \<open>
  \<^verbatim>\<open>chunk.subarray(0, e)\<close>: the end is made an integer by dropping its fraction, NaN
  counts as \<open>0\<close>, a negative end is taken from the end of the chunk, and the result is
  clamped to the chunk.
\<close>

definition subarray_to :: "'a list \<Rightarrow> int \<Rightarrow> 'a list" where
  "subarray_to chunk e =
     (if e < 0 then take (nat (max (int (length chunk) + e) 0)) chunk
      else take (nat (min e (int (length chunk)))) chunk)"

fun subarray :: "'a list \<Rightarrow> number \<Rightarrow> 'a list" where
  "subarray chunk (Num e) = subarray_to chunk e"
| "subarray chunk (Frac q) = subarray_to chunk (if q < 0 then \<lceil>q\<rceil> else \<lfloor>q\<rfloor>)"
| "subarray chunk Infinity = chunk"
| "subarray chunk NegInfinity = []"
| "subarray chunk NaN = []"

definition transform :: "Uint8Array \<Rightarrow> session \<Rightarrow> Uint8Array \<times> session" where
  "transform chunk s =
     (let chunk' = subarray chunk (bytesLeft s)
      in (chunk',
          s\<lparr>currentSize := add (currentSize s) (Num (int (length chunk'))),
            bytesLeft := sub (bytesLeft s) (Num (int (length chunk')))\<rparr>))"

definition enqueue :: "Uint8Array \<Rightarrow> session \<Rightarrow> session" where
  "enqueue chunk s = s\<lparr>writable := (writable s)\<lparr>enqueued := enqueued (writable s) @ [chunk]\<rparr>\<rparr>"

fun pump :: "Uint8Array list \<Rightarrow> session \<Rightarrow> session" where
  "pump [] s = s"
| "pump (chunk # rest) s = (case transform chunk s of (chunk', s') \<Rightarrow> pump rest (enqueue chunk' s'))"

text \<open>
  \<^verbatim>\<open>response.body?.pipeThrough(...).pipeTo(writable, {preventClose, preventCancel})\<close>,
  awaited; the first component says whether the promise resolves. Without a body there
  is nothing to await. The options leave \<^verbatim>\<open>preventAbort\<close> at its default, so by the
  Streams standard an error of the source aborts the destination with that error; and a
  pipe into a destination that is no longer writable fails at once, before a chunk is
  read. \<open>Fails\<close> stands for any error during the pipe, on either side: in each case the
  writable side is errored afterwards.
\<close>

definition pipeTo :: "ReadableStream option \<Rightarrow> session \<Rightarrow> bool \<times> session" where
  "pipeTo b s =
     (case b of
        None \<Rightarrow> (True, s)
      | Some stream \<Rightarrow>
          if state (writable s) \<noteq> Writable then (False, s)
          else
            (let s' = pump (chunks stream) s
             in (case ending stream of
                   Ends \<Rightarrow> (True, s')
                 | Fails err \<Rightarrow> (False, s'\<lparr>writable := (writable s')\<lparr>state := Errored err\<rparr>\<rparr>))))"

subsection \<open>Lines 100 to 133: the retry loop\<close>

text \<open>
  Lines 102 to 116, the \<^verbatim>\<open>try\<close> block: the pipe, then \<^verbatim>\<open>writable.close()\<close>. The first
  component is \<open>True\<close> when the block reaches its \<^verbatim>\<open>return\<close>, and \<open>False\<close> when the
  pipe or the call of \<^verbatim>\<open>close\<close> throws and control passes to \<^verbatim>\<open>catch\<close>.
\<close>

definition attempt :: "Response \<Rightarrow> session \<Rightarrow> bool \<times> session" where
  "attempt response s =
     (case pipeTo (body response) s of
        (False, s1) \<Rightarrow> (False, s1)
      | (True, s1) \<Rightarrow> (case close (writable s1) of (ok, w) \<Rightarrow> (ok, s1\<lparr>writable := w\<rparr>)))"

text \<open>
  Lines 121 to 125: the headers of the next request, a new plain object: the spread of
  the old value of \<^verbatim>\<open>init.headers\<close>, then the properties \<^verbatim>\<open>range\<close> and \<^verbatim>\<open>if-match\<close>.
\<close>

definition retry_headers ::
  "HeadersInit option \<Rightarrow> number \<Rightarrow> byte_range option \<Rightarrow> string option \<Rightarrow> object" where
  "retry_headers h n rng etag =
     set_property
       (set_property (spread h) ''range''
          (Text (''bytes='' @ toString n @ ''-'' @
             (case rng of None \<Rightarrow> [] | Some r \<Rightarrow> toString (end' r)))))
       ''if-match'' (Text (case etag of None \<Rightarrow> [] | Some t \<Rightarrow> t))"

text \<open>
  Lines 120 to 126: \<^verbatim>\<open>init.headers\<close> is overwritten and \<^verbatim>\<open>fetch\<close> is called again with
  the same \<^verbatim>\<open>init\<close> object. (The \<^verbatim>\<open>delay\<close> of line 120 changes nothing in this state.)
\<close>

definition retry_request ::
  "env \<Rightarrow> byte_range option \<Rightarrow> string option \<Rightarrow> session \<Rightarrow> (error + Response) \<times> session" where
  "retry_request e rng etag s =
     (let i = (init s)\<lparr>headers :=
                Some (Object (retry_headers (headers (init s)) (currentSize s) rng etag))\<rparr>
      in (fetch e (length (requests s)) i, s\<lparr>init := i, requests := requests s @ [i]\<rparr>))"

datatype completion = Returned | Threw error

text \<open>
  The loop runs in the background for as long as the server answers 206 to a retry, so
  it takes fuel: one unit per turn of \<^verbatim>\<open>while (true)\<close>, and \<open>None\<close> when the fuel runs
  out before the loop has left. \<^verbatim>\<open>fetch\<close> on line 126 is outside the \<^verbatim>\<open>try\<close> block,
  so its rejection ends the loop.
\<close>

fun retry_loop ::
  "nat \<Rightarrow> env \<Rightarrow> byte_range option \<Rightarrow> string option \<Rightarrow> Response \<Rightarrow> session
     \<Rightarrow> (completion \<times> session) option" where
  "retry_loop 0 e rng etag response s = None"
| "retry_loop (Suc fuel) e rng etag response s =
     (case attempt response s of
        (True, s') \<Rightarrow> Some (Returned, s')
      | (False, s') \<Rightarrow>
          if aborted e (length (requests s')) then Some (Returned, s')
          else
            (case retry_request e rng etag s' of
               (Inl err, s'') \<Rightarrow> Some (Threw err, s'')
             | (Inr response', s'') \<Rightarrow>
                 if status response' \<noteq> 206
                 then Some (Returned,
                        s''\<lparr>writable :=
                             abort (''Status Code ('' @ digits (status response') @ '') wasn't 206'')
                               (writable s'')\<rparr>)
                 else retry_loop fuel e rng etag response' s''))"

subsection \<open>Lines 45 to 98 and 135: what \<open>download\<close> does before it returns\<close>

text \<open>
  The promise of \<^verbatim>\<open>download\<close> rejects (\<open>Inl\<close>) or resolves with the headers of the
  first response; \<open>Spawned\<close> holds what the background loop starts from, when one is
  started: the first response and the constants \<^verbatim>\<open>range\<close> and \<^verbatim>\<open>etag\<close>. The session
  is returned in each case: it holds the caller's \<^verbatim>\<open>init\<close> object. (On the status
  path the body of the response is cancelled first, which changes nothing here.)
\<close>

datatype spawned = Spawned Response "byte_range option" "string option"

definition accepted :: "nat \<Rightarrow> bool" where
  "accepted code = (code = 200 \<or> code = 201 \<or> code = 206)"

text \<open>Line 45: \<^verbatim>\<open>init.headers = init.headers ?? {}\<close>, an assignment to the caller's object.\<close>

definition default_headers :: "RequestInit \<Rightarrow> RequestInit" where
  "default_headers i = i\<lparr>headers := Some (case headers i of None \<Rightarrow> Object [] | Some h \<Rightarrow> h)\<rparr>"

definition download :: "env \<Rightarrow> RequestInit \<Rightarrow> session \<times> (error + Headers \<times> spawned option)" where
  "download e init0 =
     (let i = default_headers init0;
          s = \<lparr>init = i, currentSize = Num 0, bytesLeft = Num 0,
               writable = new_TransformStream, requests = [i]\<rparr>
      in (case fetch e 0 i of
            Inl err \<Rightarrow> (s, Inl err)
          | Inr response \<Rightarrow>
              if \<not> accepted (status response)
              then (s\<lparr>writable :=
                        abort (''Invalid Status Code ('' @ digits (status response) @ ''): ''
                                 @ statusText response) (writable s)\<rparr>,
                    Inr (response_headers response, None))
              else
                (let etag = get (response_headers response) ''etag'';
                     rng = range' i
                 in (case contentRange response of
                       Inl err \<Rightarrow> (s, Inl err)
                     | Inr cr \<Rightarrow>
                         (s\<lparr>currentSize := initial_currentSize cr,
                            bytesLeft := initial_bytesLeft cr response\<rparr>,
                          Inr (response_headers response, Some (Spawned response rng etag)))))))"

text \<open>
  A whole session: the call, then the background loop with the given fuel. The second
  component is \<open>None\<close> when the loop has not left within the fuel.
\<close>

definition run ::
  "nat \<Rightarrow> env \<Rightarrow> RequestInit \<Rightarrow> (error + Headers) \<times> (completion \<times> session) option" where
  "run fuel e init0 =
     (case download e init0 of
        (s, Inl err) \<Rightarrow> (Inl err, Some (Threw err, s))
      | (s, Inr (h, None)) \<Rightarrow> (Inr h, Some (Returned, s))
      | (s, Inr (h, Some (Spawned response rng etag))) \<Rightarrow>
          (Inr h, retry_loop fuel e rng etag response s))"

text \<open>The bytes the reader has received, in order.\<close>

definition delivered :: "session \<Rightarrow> Uint8Array" where
  "delivered s = concat (enqueued (writable s))"

text \<open>The \<^verbatim>\<open>Range\<close> header of each request issued, oldest first.\<close>

definition range_headers :: "session \<Rightarrow> string option list" where
  "range_headers s = map (\<lambda>i. request_header i ''range'') (requests s)"

subsection \<open>The invariant of the counters\<close>

text \<open>
  Both counters are integers that are not negative, and they add up to \<open>z\<close>, which is at
  most \<open>2^53\<close>: in that range the additions and subtractions of lines 107 and 108 are exact.
\<close>

definition budget_inv :: "int \<Rightarrow> session \<Rightarrow> bool" where
  "budget_inv z s =
     (case (currentSize s, bytesLeft s) of
        (Num c, Num b) \<Rightarrow> c + b = z \<and> 0 \<le> c \<and> 0 \<le> b \<and> z \<le> 2 ^ 53
      | _ \<Rightarrow> False)"

text \<open>The same, and \<^verbatim>\<open>currentSize\<close> is \<open>a\<close> plus the number of bytes delivered.\<close>

definition counting :: "int \<Rightarrow> int \<Rightarrow> session \<Rightarrow> bool" where
  "counting a z s \<longleftrightarrow> budget_inv z s \<and> currentSize s = Num (a + int (length (delivered s)))"

section \<open>Example servers\<close>

definition ten_bytes :: Uint8Array where
  "ten_bytes = [0, 1, 2, 3, 4, 5, 6, 7, 8, 9]"

definition partial_content :: "string \<Rightarrow> ReadableStream option \<Rightarrow> Response" where
  "partial_content cr b =
     \<lparr>status = 206, statusText = ''Partial Content'',
      response_headers = [(''content-range'', cr), (''etag'', ''v1'')], body = b\<rparr>"

definition not_satisfiable :: Response where
  "not_satisfiable =
     \<lparr>status = 416, statusText = ''Range Not Satisfiable'', response_headers = [], body = None\<rparr>"

definition not_found :: Response where
  "not_found =
     \<lparr>status = 404, statusText = ''Not Found'',
      response_headers = [(''content-type'', ''text/plain'')],
      body = Some \<lparr>chunks = [ten_bytes], ending = Ends\<rparr>\<rparr>"

text \<open>A server that answers every request with one response, and a signal never set.\<close>

definition always :: "Response \<Rightarrow> env" where
  "always r = \<lparr>fetch = (\<lambda>n i. Inr r), aborted = (\<lambda>n. False)\<rparr>"

text \<open>
  A ten-byte resource, served whole in one chunk with \<^verbatim>\<open>Content-Range: bytes 0-9/10\<close>,
  and the same resource served with \<^verbatim>\<open>Content-Length: 10\<close> and no \<^verbatim>\<open>Content-Range\<close>.
\<close>

definition server_ten :: env where
  "server_ten = always (partial_content ''bytes 0-9/10'' (Some \<lparr>chunks = [ten_bytes], ending = Ends\<rparr>))"

definition server_ten_whole :: env where
  "server_ten_whole =
     always \<lparr>status = 200, statusText = ''OK'', response_headers = [(''content-length'', ''10'')],
             body = Some \<lparr>chunks = [ten_bytes], ending = Ends\<rparr>\<rparr>"

text \<open>
  A server whose connection drops: the first response announces bytes 100 to 199 and
  fails after thirty bytes, and the retry is refused with 416. \<open>server_cancelled\<close> is the
  same with the caller's signal set.
\<close>

definition dropping :: "nat \<Rightarrow> RequestInit \<Rightarrow> error + Response" where
  "dropping n i =
     (if n = 0
      then Inr (partial_content ''bytes 100-199/200''
             (Some \<lparr>chunks = [ten_bytes, ten_bytes, ten_bytes], ending = Fails ''connection reset''\<rparr>))
      else Inr not_satisfiable)"

definition server_dropping :: env where
  "server_dropping = \<lparr>fetch = dropping, aborted = (\<lambda>n. False)\<rparr>"

definition server_cancelled :: env where
  "server_cancelled = \<lparr>fetch = dropping, aborted = (\<lambda>n. True)\<rparr>"

text \<open>
  A server that resumes: after the same first response, the second and third requests
  are answered 206 with ten more bytes each, the bodies failing again, and the fourth is
  refused with 416.
\<close>

definition resuming :: "nat \<Rightarrow> RequestInit \<Rightarrow> error + Response" where
  "resuming n i =
     (if n = 0 then dropping n i
      else if n < 3
      then Inr (partial_content ''bytes 130-199/200''
             (Some \<lparr>chunks = [ten_bytes], ending = Fails ''connection reset''\<rparr>))
      else Inr not_satisfiable)"

definition server_resuming :: env where
  "server_resuming = \<lparr>fetch = resuming, aborted = (\<lambda>n. False)\<rparr>"

text \<open>A server that sends \<^verbatim>\<open>Content-Range: items 0-9/10\<close>, a unit other than bytes.\<close>

definition server_items :: env where
  "server_items = always (partial_content ''items 0-9/10'' (Some \<lparr>chunks = [ten_bytes], ending = Ends\<rparr>))"

text \<open>A server that sends \<^verbatim>\<open>Content-Range: bytes 5-2/10\<close>, its end before its start.\<close>

definition server_reversed :: env where
  "server_reversed =
     always (partial_content ''bytes 5-2/10'' (Some \<lparr>chunks = [[0, 1, 2, 3]], ending = Ends\<rparr>))"

text \<open>
  A session just started with a budget of ten bytes, and a response whose body fails
  after four bytes.
\<close>

definition fresh :: session where
  "fresh =
     \<lparr>init = \<lparr>headers = Some (Object [])\<rparr>, currentSize = Num 0, bytesLeft = Num 10,
      writable = new_TransformStream, requests = [\<lparr>headers = Some (Object [])\<rparr>]\<rparr>"

definition cut_short :: Response where
  "cut_short =
     \<lparr>status = 200, statusText = ''OK'', response_headers = [(''content-length'', ''10'')],
      body = Some \<lparr>chunks = [[0, 1, 2, 3]], ending = Fails ''connection reset''\<rparr>\<rparr>"

text \<open>
  The headers of one request given in the three ways: a plain object, a \<^verbatim>\<open>Headers\<close>
  instance, an array of pairs.
\<close>

definition as_object :: RequestInit where
  "as_object =
     \<lparr>headers = Some (Object [(''accept'', Text ''*/*''), (''range'', Text ''bytes=100-199'')])\<rparr>"

definition as_instance :: RequestInit where
  "as_instance = \<lparr>headers = Some (Instance [(''accept'', ''*/*''), (''range'', ''bytes=100-199'')])\<rparr>"

definition as_pairs :: RequestInit where
  "as_pairs = \<lparr>headers = Some (Pairs [(''accept'', ''*/*''), (''range'', ''bytes=100-199'')])\<rparr>"

section \<open>Facts about the model\<close>

subsection \<open>What a turn of the loop leaves unchanged\<close>

lemma pump_frame:
  "init (pump cs s) = init s \<and> requests (pump cs s) = requests s \<and>
   calls (writable (pump cs s)) = calls (writable s) \<and>
   state (writable (pump cs s)) = state (writable s)"
  by (induction cs arbitrary: s) (auto simp: transform_def enqueue_def Let_def)

lemma pipeTo_frame:
  "pipeTo b s = (ok, s') \<Longrightarrow>
     init s' = init s \<and> requests s' = requests s \<and> calls (writable s') = calls (writable s)"
  by (auto simp: pipeTo_def Let_def pump_frame split: option.splits if_splits ending.splits)

lemma attempt_frame:
  assumes "attempt r s = (ok, s')"
  shows "init s' = init s \<and> requests s' = requests s"
proof -
  obtain piped s1 where p: "pipeTo (body r) s = (piped, s1)" by (cases "pipeTo (body r) s")
  from pipeTo_frame [OF p] have "init s1 = init s \<and> requests s1 = requests s" by simp
  moreover from assms p have "init s' = init s1 \<and> requests s' = requests s1"
    by (cases piped) (auto simp: attempt_def close_def)
  ultimately show ?thesis by simp
qed

lemma attempt_pipe_failed: "pipeTo (body r) s = (False, s') \<Longrightarrow> attempt r s = (False, s')"
  by (simp add: attempt_def)

lemma retry_request_effect:
  "retry_request e rng etag s = (res, s') \<Longrightarrow>
     init s' =
       (init s)\<lparr>headers := Some (Object (retry_headers (headers (init s)) (currentSize s) rng etag))\<rparr> \<and>
     requests s' = requests s @ [init s'] \<and>
     res = fetch e (length (requests s)) (init s') \<and>
     writable s' = writable s \<and> currentSize s' = currentSize s \<and> bytesLeft s' = bytesLeft s"
  by (auto simp: retry_request_def Let_def)

text \<open>
  A property of the counters and of the chunks written that every chunk preserves holds
  for as long as the loop runs: nothing but \<^verbatim>\<open>transform\<close> and the write that follows
  it changes the three.
\<close>

lemma pump_preserves:
  assumes step: "\<And>s chunk chunk' s'. P s \<Longrightarrow> transform chunk s = (chunk', s') \<Longrightarrow> P (enqueue chunk' s')"
  shows "P s \<Longrightarrow> P (pump cs s)"
proof (induction cs arbitrary: s)
  case Nil
  then show ?case by simp
next
  case (Cons chunk rest)
  obtain chunk' s' where t: "transform chunk s = (chunk', s')" by (cases "transform chunk s")
  with Cons.prems have "P (enqueue chunk' s')" by (rule step)
  then have "P (pump rest (enqueue chunk' s'))" by (rule Cons.IH)
  with t show ?case by simp
qed

lemma pipeTo_preserves:
  assumes step: "\<And>s chunk chunk' s'. P s \<Longrightarrow> transform chunk s = (chunk', s') \<Longrightarrow> P (enqueue chunk' s')"
    and frame: "\<And>s s'. P s \<Longrightarrow> currentSize s' = currentSize s \<Longrightarrow> bytesLeft s' = bytesLeft s \<Longrightarrow>
                  enqueued (writable s') = enqueued (writable s) \<Longrightarrow> P s'"
    and "P s" and "pipeTo b s = (ok, s')"
  shows "P s'"
proof (cases b)
  case None
  with assms(3,4) show ?thesis by (simp add: pipeTo_def)
next
  case (Some stream)
  show ?thesis
  proof (cases "state (writable s) = Writable")
    case False
    with assms(3,4) Some show ?thesis by (simp add: pipeTo_def)
  next
    case True
    have p: "P (pump (chunks stream) s)" using step assms(3) by (rule pump_preserves)
    show ?thesis
    proof (cases "ending stream")
      case Ends
      with assms(4) Some True p show ?thesis by (auto simp: pipeTo_def Let_def)
    next
      case (Fails err)
      with assms(4) Some True
      have "s' = (pump (chunks stream) s)\<lparr>writable := (writable (pump (chunks stream) s))\<lparr>state := Errored err\<rparr>\<rparr>"
        by (auto simp: pipeTo_def Let_def)
      then show ?thesis by (intro frame [OF p]) simp_all
    qed
  qed
qed

lemma attempt_preserves:
  assumes step: "\<And>s chunk chunk' s'. P s \<Longrightarrow> transform chunk s = (chunk', s') \<Longrightarrow> P (enqueue chunk' s')"
    and frame: "\<And>s s'. P s \<Longrightarrow> currentSize s' = currentSize s \<Longrightarrow> bytesLeft s' = bytesLeft s \<Longrightarrow>
                  enqueued (writable s') = enqueued (writable s) \<Longrightarrow> P s'"
    and "P s" and "attempt r s = (ok, s')"
  shows "P s'"
proof -
  obtain piped s1 where p: "pipeTo (body r) s = (piped, s1)" by (cases "pipeTo (body r) s")
  with step frame assms(3) have p1: "P s1" by (rule pipeTo_preserves)
  from assms(4) p have "currentSize s' = currentSize s1 \<and> bytesLeft s' = bytesLeft s1 \<and>
      enqueued (writable s') = enqueued (writable s1)"
    by (cases piped) (auto simp: attempt_def close_def)
  then show ?thesis by (intro frame [OF p1]) simp_all
qed

lemma retry_loop_preserves:
  assumes step: "\<And>s chunk chunk' s'. P s \<Longrightarrow> transform chunk s = (chunk', s') \<Longrightarrow> P (enqueue chunk' s')"
    and frame: "\<And>s s'. P s \<Longrightarrow> currentSize s' = currentSize s \<Longrightarrow> bytesLeft s' = bytesLeft s \<Longrightarrow>
                  enqueued (writable s') = enqueued (writable s) \<Longrightarrow> P s'"
  shows "P s \<Longrightarrow> retry_loop fuel e rng etag r s = Some (k, t) \<Longrightarrow> P t"
proof (induction fuel arbitrary: r s)
  case 0
  then show ?case by simp
next
  case (Suc fuel)
  obtain ok s' where a: "attempt r s = (ok, s')" by (cases "attempt r s")
  with step frame Suc.prems(1) have p': "P s'" by (rule attempt_preserves)
  show ?case
  proof (cases "ok \<or> aborted e (length (requests s'))")
    case True
    with Suc.prems(2) a have "t = s'" by (cases ok) (auto split: if_splits)
    with p' show ?thesis by simp
  next
    case False
    obtain res s'' where q: "retry_request e rng etag s' = (res, s'')"
      by (cases "retry_request e rng etag s'")
    from retry_request_effect [OF q] have p'': "P s''" by (intro frame [OF p']) simp_all
    show ?thesis
    proof (cases res)
      case (Inl err)
      with Suc.prems(2) a False q have "t = s''" by auto
      with p'' show ?thesis by simp
    next
      case (Inr r')
      show ?thesis
      proof (cases "status r' = 206")
        case True
        with Suc.prems(2) a False q Inr have "retry_loop fuel e rng etag r' s'' = Some (k, t)"
          by simp
        with p'' show ?thesis by (rule Suc.IH)
      next
        case other: False
        with Suc.prems(2) a False q Inr
        have "t = s''\<lparr>writable := abort (''Status Code ('' @ digits (status r') @ '') wasn't 206'') (writable s'')\<rparr>"
          by simp
        then show ?thesis by (intro frame [OF p'']) (simp_all add: abort_def)
      qed
    qed
  qed
qed

subsection \<open>The counters\<close>

text \<open>Up to \<open>2^53\<close> nothing is rounded.\<close>

lemma integer_exact: "\<bar>n\<bar> \<le> 2 ^ 53 \<Longrightarrow> integer n = Num n"
  by (simp add: integer_def)

lemma budget_inv_iff:
  "budget_inv z s \<longleftrightarrow>
     (\<exists>c b. currentSize s = Num c \<and> bytesLeft s = Num b \<and> c + b = z \<and> 0 \<le> c \<and> 0 \<le> b \<and> z \<le> 2 ^ 53)"
  by (auto simp: budget_inv_def split: number.splits)

lemma transform_budget:
  assumes "currentSize s = Num c" "bytesLeft s = Num b" "0 \<le> c" "0 \<le> b" "c + b \<le> 2 ^ 53"
  shows "transform chunk s =
           (take (nat b) chunk,
            s\<lparr>currentSize := Num (c + int (min (length chunk) (nat b))),
              bytesLeft := Num (b - int (min (length chunk) (nat b)))\<rparr>)"
proof -
  let ?n = "int (min (length chunk) (nat b))"
  have cut: "subarray chunk (Num b) = take (nat b) chunk"
    using assms(4) by (simp add: subarray_to_def min_def)
  have n: "0 \<le> ?n" "?n \<le> b" using assms(4) by simp_all
  have "\<bar>c + ?n\<bar> \<le> 2 ^ 53" using assms(3,5) n by linarith
  then have up: "add (Num c) (Num ?n) = Num (c + ?n)" by (simp add: integer_exact)
  have "\<bar>b - ?n\<bar> \<le> 2 ^ 53" using assms(3,5) n by linarith
  then have down: "sub (Num b) (Num ?n) = Num (b - ?n)" by (simp add: sub_def integer_exact)
  from cut up down assms(1,2) show ?thesis by (simp add: transform_def Let_def)
qed

lemma transform_inv:
  "budget_inv z s \<Longrightarrow> budget_inv z (snd (transform chunk s))"
  by (auto simp: budget_inv_iff transform_budget)

lemma budget_inv_step:
  "budget_inv z s \<Longrightarrow> transform chunk s = (chunk', s') \<Longrightarrow> budget_inv z (enqueue chunk' s')"
  using transform_inv [of z s chunk] by (simp add: budget_inv_def enqueue_def)

lemma budget_inv_frame:
  "budget_inv z s \<Longrightarrow> currentSize s' = currentSize s \<Longrightarrow> bytesLeft s' = bytesLeft s \<Longrightarrow>
   enqueued (writable s') = enqueued (writable s) \<Longrightarrow> budget_inv z s'"
  by (simp add: budget_inv_def)

lemma retry_loop_inv:
  "budget_inv z s \<Longrightarrow> retry_loop fuel e rng etag r s = Some (k, t) \<Longrightarrow> budget_inv z t"
  by (rule retry_loop_preserves [where P = "budget_inv z"])
     (erule (1) budget_inv_step, erule (3) budget_inv_frame)

text \<open>
  Within the same bounds each chunk is cut to the budget, and \<^verbatim>\<open>currentSize\<close> is its
  first value plus the number of bytes delivered.
\<close>

lemma transform_budget_step:
  assumes "budget_inv z t"
  shows "case transform chunk t of (chunk', t') \<Rightarrow>
           budget_inv z t' \<and>
           (case bytesLeft t of Num b' \<Rightarrow> chunk' = take (nat b') chunk | _ \<Rightarrow> False)"
proof -
  from assms obtain c b where cb: "currentSize t = Num c" "bytesLeft t = Num b" "0 \<le> c" "0 \<le> b"
      "c + b \<le> 2 ^ 53"
    by (auto simp: budget_inv_iff)
  have "budget_inv z (snd (transform chunk t))" using assms by (rule transform_inv)
  then show ?thesis using cb by (simp add: transform_budget)
qed

lemma counting_step:
  assumes "counting a z s" and "transform chunk s = (chunk', s')"
  shows "counting a z (enqueue chunk' s')"
proof -
  from assms(1) obtain c b where cb: "currentSize s = Num c" "bytesLeft s = Num b" "0 \<le> c" "0 \<le> b"
      "c + b \<le> 2 ^ 53" "c = a + int (length (delivered s))"
    by (auto simp: counting_def budget_inv_iff)
  from assms(1) have "budget_inv z s" by (simp add: counting_def)
  from this assms(2) have "budget_inv z (enqueue chunk' s')" by (rule budget_inv_step)
  moreover from assms(2) transform_budget [OF cb(1-5), of chunk]
  have "currentSize (enqueue chunk' s') = Num (a + int (length (delivered (enqueue chunk' s'))))"
    using cb(6) by (auto simp: enqueue_def delivered_def)
  ultimately show ?thesis by (simp add: counting_def)
qed

lemma counting_frame:
  "counting a z s \<Longrightarrow> currentSize s' = currentSize s \<Longrightarrow> bytesLeft s' = bytesLeft s \<Longrightarrow>
   enqueued (writable s') = enqueued (writable s) \<Longrightarrow> counting a z s'"
  by (auto simp: counting_def budget_inv_iff delivered_def)

lemma retry_loop_counting:
  "counting a z s \<Longrightarrow> retry_loop fuel e rng etag r s = Some (k, t) \<Longrightarrow> counting a z t"
  by (rule retry_loop_preserves [where P = "counting a z"])
     (erule (1) counting_step, erule (3) counting_frame)

lemma download_spawned:
  assumes "download e i = (s, Inr (h, Some (Spawned r rng etag)))"
  shows "\<exists>cr. contentRange r = Inr cr \<and> currentSize s = initial_currentSize cr \<and>
           bytesLeft s = initial_bytesLeft cr r \<and> writable s = new_TransformStream \<and>
           requests s = [default_headers i] \<and> init s = default_headers i \<and>
           fetch e 0 (default_headers i) = Inr r \<and> accepted (status r) \<and>
           h = response_headers r \<and> rng = range' (default_headers i) \<and>
           etag = get (response_headers r) ''etag''"
  using assms by (auto simp: download_def Let_def split: sum.splits if_splits)

text \<open>
  A session whose first response announces the bytes from \<open>a\<close> to \<open>z\<close>, which are
  \<open>z - a + 1\<close> bytes, delivers at most \<open>z - a\<close> of them; its budget never becomes
  negative, and the two counters add up to \<open>z\<close>.
\<close>

lemma delivered_below_span:
  assumes d: "download e i = (s, Inr (h, Some (Spawned r rng etag)))"
    and cr: "contentRange r = Inr (Some x)" "start x = Num a" "end' x = Num z"
    and bounds: "0 \<le> a" "a \<le> z" "z \<le> 2 ^ 53"
    and l: "retry_loop fuel e rng etag r s = Some (k, t)"
  shows "int (length (delivered t)) \<le> z - a \<and> budget_inv z t"
proof -
  have "\<bar>z - a\<bar> \<le> 2 ^ 53" using bounds by linarith
  then have "sub (Num z) (Num a) = Num (z - a)" by (simp add: sub_def integer_exact)
  with download_spawned [OF d] cr have s: "currentSize s = Num a" "bytesLeft s = Num (z - a)"
      "writable s = new_TransformStream"
    by (auto simp: initial_currentSize_def initial_bytesLeft_def)
  then have "counting a z s"
    using bounds by (simp add: counting_def budget_inv_iff delivered_def new_TransformStream_def)
  with l have "counting a z t" by (rule retry_loop_counting [rotated])
  then show ?thesis by (auto simp: counting_def budget_inv_iff)
qed

text \<open>
  The same ten bytes, announced by a \<^verbatim>\<open>Content-Range\<close> and by a \<^verbatim>\<open>Content-Length\<close>:
  the counters add up to 9 in the one session and to 10 in the other.
\<close>

lemma counters_sum_example:
  "map_option (\<lambda>kt. (currentSize (snd kt), bytesLeft (snd kt), length (delivered (snd kt))))
     (snd (run (Suc 0) server_ten \<lparr>headers = None\<rparr>)) = Some (Num 9, Num 0, 9) \<and>
   map_option (\<lambda>kt. (currentSize (snd kt), bytesLeft (snd kt), length (delivered (snd kt))))
     (snd (run (Suc 0) server_ten_whole \<lparr>headers = None\<rparr>)) = Some (Num 10, Num 0, 10)"
  by code_simp

text \<open>
  From \<open>2^53\<close> on the additions of line 107 round: at the offset \<open>2^53\<close> a chunk of one
  byte leaves \<^verbatim>\<open>currentSize\<close> where it was, while the budget goes down by one.
\<close>

lemma counters_round_example:
  "transform [7] (fresh\<lparr>currentSize := Num 9007199254740992\<rparr>) =
     ([7], fresh\<lparr>currentSize := Num 9007199254740992, bytesLeft := Num 9\<rparr>)"
  by code_simp

subsection \<open>The parsers\<close>

lemma indexOf_from_cases:
  "indexOf_from s c i = - 1 \<or> (\<exists>k < length s. indexOf_from s c i = i + int k \<and> s ! k = c)"
proof (induction s arbitrary: i)
  case Nil
  then show ?case by simp
next
  case (Cons x xs)
  show ?case
  proof (cases "x = c")
    case True
    then show ?thesis by auto
  next
    case False
    from Cons.IH [of "i + 1"] show ?thesis
    proof
      assume "indexOf_from xs c (i + 1) = - 1"
      with False show ?thesis by simp
    next
      assume "\<exists>k < length xs. indexOf_from xs c (i + 1) = i + 1 + int k \<and> xs ! k = c"
      then obtain k where "k < length xs" "indexOf_from xs c (i + 1) = i + 1 + int k" "xs ! k = c"
        by blast
      with False have "Suc k < length (x # xs) \<and> indexOf_from (x # xs) c i = i + int (Suc k) \<and>
          (x # xs) ! Suc k = c"
        by simp
      then show ?thesis by blast
    qed
  qed
qed

lemma indexOf_cases:
  "indexOf s c = - 1 \<or> (\<exists>k < length s. indexOf s c = int k \<and> s ! k = c)"
  using indexOf_from_cases [of s c 0] by (simp add: indexOf_def)

lemma indexOf_from_found:
  "c \<in> set s \<Longrightarrow> indexOf_from s c i \<noteq> - 1 \<or> i < 0"
proof (induction s arbitrary: i)
  case Nil
  then show ?case by simp
next
  case (Cons x xs)
  show ?case
  proof (cases "x = c")
    case True
    then show ?thesis by auto
  next
    case False
    with Cons.prems have "c \<in> set xs" by simp
    from Cons.IH [OF this, of "i + 1"] False show ?thesis by auto
  qed
qed

text \<open>A string that begins with a letter \<open>b\<close> is no numeral.\<close>

lemma Number_b: "Number (CHR ''b'' # rest) = NaN"
proof -
  have nw: "\<not> isWhiteSpace CHR ''b''" by (simp add: isWhiteSpace_def)
  have "trim (CHR ''b'' # rest) = CHR ''b'' # rev (dropWhile isWhiteSpace (rev rest))"
    using nw by (simp add: trim_def dropWhile_append3)
  moreover have "unsigned (CHR ''b'' # t) = NaN" for t
    by (simp add: unsigned_def isDigit_def digit_val_def numeral_value_def Let_def)
  moreover have "radix_literal (CHR ''b'' # t) = None" for t
    by (simp add: radix_literal_def split: list.splits)
  ultimately show ?thesis by (simp add: Number_def)
qed

lemma startsWith_Cons:
  "startsWith s (c # p) \<Longrightarrow> \<exists>rest. s = c # rest \<and> startsWith rest p"
  by (cases s) (auto simp: startsWith_def)

lemma substring_to_end:
  "k < length s \<Longrightarrow> substring s (int k) None = s ! k # drop (Suc k) s"
  by (simp add: substring_def clamp_def Let_def min_def max_def Cons_nth_drop_Suc)

lemma substring_whole: "substring s (- 1) None = s"
  by (simp add: substring_def clamp_def Let_def)

lemma substring_prefix:
  "k \<le> length s \<Longrightarrow> substring s 0 (Some (int k)) = take k s"
  by (simp add: substring_def clamp_def Let_def min_def max_def)

text \<open>Whatever the header value is, the total read from a \<^verbatim>\<open>Content-Range\<close> is NaN.\<close>

lemma contentRange_total:
  assumes "contentRange r = Inr (Some cr)"
  shows "total cr = NaN"
proof -
  from assms obtain v where v: "get (response_headers r) ''content-range'' = Some v"
    and sw: "startsWith v ''bytes ''"
    and t: "total cr = (if substring v (indexOf v CHR ''/'') None = ''*'' then Infinity else Number v)"
    by (auto simp: contentRange_def Let_def split: option.splits if_splits)
  from sw obtain rest where b: "v = CHR ''b'' # rest" using startsWith_Cons by blast
  have "substring v (indexOf v CHR ''/'') None \<noteq> ''*''"
  proof (rule disjE [OF indexOf_cases [of v "CHR ''/''"]])
    assume "indexOf v CHR ''/'' = - 1"
    with b show ?thesis by (simp add: substring_whole)
  next
    assume "\<exists>k < length v. indexOf v CHR ''/'' = int k \<and> v ! k = CHR ''/''"
    then obtain k where "k < length v" "indexOf v CHR ''/'' = int k" "v ! k = CHR ''/''" by blast
    then show ?thesis by (simp add: substring_to_end)
  qed
  with t b show ?thesis by (simp add: Number_b)
qed

text \<open>
  Whenever the caller's \<^verbatim>\<open>Range\<close> header begins with \<^verbatim>\<open>bytes=\<close> and holds a dash, the
  start read from it is NaN.
\<close>

lemma range_start:
  assumes "request_header i ''range'' = Some v" and "startsWith v ''bytes=''"
    and "CHR ''-'' \<in> set v"
  shows "\<exists>x. range' i = Some x \<and> start x = NaN"
proof -
  from assms(2) obtain rest where v: "v = ''bytes='' @ rest"
    by (metis append_take_drop_id startsWith_def)
  from assms(3) have "indexOf v CHR ''-'' \<noteq> - 1"
    using indexOf_from_found [of "CHR ''-''" v 0] by (simp add: indexOf_def)
  with indexOf_cases [of v "CHR ''-''"] obtain k where
    k: "k < length v" "indexOf v CHR ''-'' = int k" "v ! k = CHR ''-''"
    by blast
  have "6 \<le> k"
  proof (rule ccontr)
    assume "\<not> 6 \<le> k"
    then have "k \<in> {0, 1, 2, 3, 4, 5}" by auto
    with k(3) v show False by (auto simp: nth_Cons')
  qed
  then obtain t where "take k v = CHR ''b'' # t"
    using v by (cases k) (auto simp: take_Cons')
  with k have "Number (substring v 0 (Some (indexOf v CHR ''-''))) = NaN"
    by (simp add: substring_prefix Number_b)
  with assms(1) show ?thesis by (simp add: range'_def Let_def)
qed

text \<open>
  \<^verbatim>\<open>Number\<close> reads more than digits: a fraction, an exponent and a radix prefix are
  numerals too, and the numbers print as the language prints them.
\<close>

lemma Number_examples:
  "Number ''10.5'' = Frac (21 / 2) \<and> Number ''1e1'' = Num 10 \<and> Number ''0x10'' = Num 16 \<and>
   Number '' 42 '' = Num 42 \<and> Number ''-7'' = Num (- 7) \<and> Number ''Infinity'' = Infinity \<and>
   Number ''9007199254740993'' = Num 9007199254740992 \<and> Number ''12 34'' = NaN"
  by code_simp

lemma toString_examples:
  "toString (Num 1000000000000000000000) = ''1e+21'' \<and>
   toString (Num 100000000000000000000) = ''100000000000000000000'' \<and>
   toString (Frac (21 / 2)) = ''10.5'' \<and>
   toString (Num (- 3)) = ''-3''"
  by code_simp

subsection \<open>The headers of a retry\<close>

lemma map_of_set_property:
  "map_of (set_property h k v) k' = (if k' = k then Some v else map_of h k')"
  by (induction h k v rule: set_property.induct) auto

lemma retry_headers_entries:
  "map_of (retry_headers h n rng etag) ''range'' =
     Some (Text (''bytes='' @ toString n @ ''-'' @
                   (case rng of None \<Rightarrow> [] | Some r \<Rightarrow> toString (end' r))))"
  "map_of (retry_headers h n rng etag) ''if-match'' =
     Some (Text (case etag of None \<Rightarrow> [] | Some t \<Rightarrow> t))"
  "k \<noteq> ''range'' \<Longrightarrow> k \<noteq> ''if-match'' \<Longrightarrow>
     map_of (retry_headers h n rng etag) k = map_of (spread h) k"
  by (simp_all add: retry_headers_def map_of_set_property)

text \<open>
  When \<^verbatim>\<open>init.headers\<close> is a \<^verbatim>\<open>Headers\<close> instance, the object of lines 121 to 125 holds
  the two new properties and nothing else: the headers of the caller are not in it.
\<close>

lemma retry_headers_instance:
  "retry_headers (Some (Instance h)) n rng etag =
     [(''range'', Text (''bytes='' @ toString n @ ''-'' @
                          (case rng of None \<Rightarrow> [] | Some r \<Rightarrow> toString (end' r)))),
      (''if-match'', Text (case etag of None \<Rightarrow> [] | Some t \<Rightarrow> t))]"
  by (simp add: retry_headers_def)

lemma retry_loop_overwritten:
  "retry_loop fuel e rng etag r s = Some (k, t) \<Longrightarrow>
   (\<exists>h n. headers (init s) = Some (Object (retry_headers h n rng etag))) \<or> requests t \<noteq> requests s \<Longrightarrow>
   \<exists>h n. headers (init t) = Some (Object (retry_headers h n rng etag))"
proof (induction fuel arbitrary: r s)
  case 0
  then show ?case by simp
next
  case (Suc fuel)
  obtain ok s' where a: "attempt r s = (ok, s')" by (cases "attempt r s")
  from attempt_frame [OF a] have fr: "init s' = init s" "requests s' = requests s" by simp_all
  show ?case
  proof (cases "ok \<or> aborted e (length (requests s'))")
    case True
    with Suc.prems(1) a have "t = s'" by (cases ok) (auto split: if_splits)
    with Suc.prems(2) fr show ?thesis by simp
  next
    case False
    obtain res s'' where q: "retry_request e rng etag s' = (res, s'')"
      by (cases "retry_request e rng etag s'")
    from retry_request_effect [OF q]
    have ow: "\<exists>h n. headers (init s'') = Some (Object (retry_headers h n rng etag))" by auto
    show ?thesis
    proof (cases res)
      case (Inl err)
      with Suc.prems(1) a False q have "t = s''" by auto
      with ow show ?thesis by simp
    next
      case (Inr r')
      show ?thesis
      proof (cases "status r' = 206")
        case True
        with Suc.prems(1) a False q Inr have "retry_loop fuel e rng etag r' s'' = Some (k, t)"
          by simp
        moreover from ow
        have "(\<exists>h n. headers (init s'') = Some (Object (retry_headers h n rng etag))) \<or>
              requests t \<noteq> requests s''"
          by (rule disjI1)
        ultimately show ?thesis by (rule Suc.IH)
      next
        case other: False
        with Suc.prems(1) a False q Inr obtain w where "t = s''\<lparr>writable := w\<rparr>" by auto
        with ow show ?thesis by simp
      qed
    qed
  qed
qed

lemma download_init: "init (fst (download e i)) = default_headers i"
  by (simp add: download_def Let_def split: sum.splits)

subsection \<open>After a failed attempt the stream is no longer writable\<close>

text \<open>
  A failed attempt leaves the writable side errored, and a pipe into it fails before a
  chunk is read. So every byte a session delivers comes from its first response, and
  \<^verbatim>\<open>currentSize\<close> stays where the first failure left it.
\<close>

lemma failed_attempt_not_writable:
  assumes "attempt r s = (False, s')"
  shows "state (writable s') \<noteq> Writable"
proof -
  obtain piped s1 where p: "pipeTo (body r) s = (piped, s1)" by (cases "pipeTo (body r) s")
  show ?thesis
  proof (cases piped)
    case True
    with assms p show ?thesis by (auto simp: attempt_def close_def split: if_splits)
  next
    case False
    with assms p have "s' = s1" by (simp add: attempt_def)
    with p False show ?thesis
      by (auto simp: pipeTo_def Let_def split: option.splits if_splits ending.splits)
  qed
qed

lemma attempt_not_writable:
  assumes "state (writable s) \<noteq> Writable"
  shows "\<exists>s'. attempt r s = (False, s') \<and> enqueued (writable s') = enqueued (writable s) \<and>
           state (writable s') = state (writable s) \<and> currentSize s' = currentSize s \<and>
           bytesLeft s' = bytesLeft s"
  using assms by (cases "body r") (auto simp: attempt_def pipeTo_def close_def)

lemma retry_loop_not_writable:
  "state (writable s) \<noteq> Writable \<Longrightarrow> retry_loop fuel e rng etag r s = Some (k, t) \<Longrightarrow>
   enqueued (writable t) = enqueued (writable s) \<and> currentSize t = currentSize s \<and>
   state (writable t) = state (writable s)"
proof (induction fuel arbitrary: r s)
  case 0
  then show ?case by simp
next
  case (Suc fuel)
  from attempt_not_writable [OF Suc.prems(1), of r] obtain s' where
    a: "attempt r s = (False, s')" and
    same: "enqueued (writable s') = enqueued (writable s)" "state (writable s') = state (writable s)"
          "currentSize s' = currentSize s"
    by blast
  show ?case
  proof (cases "aborted e (length (requests s'))")
    case True
    with Suc.prems(2) a have "t = s'" by simp
    with same show ?thesis by simp
  next
    case False
    obtain res s'' where q: "retry_request e rng etag s' = (res, s'')"
      by (cases "retry_request e rng etag s'")
    from retry_request_effect [OF q] same
    have same': "enqueued (writable s'') = enqueued (writable s)" "state (writable s'') \<noteq> Writable"
         "currentSize s'' = currentSize s" "state (writable s'') = state (writable s)"
      using Suc.prems(1) by simp_all
    show ?thesis
    proof (cases res)
      case (Inl err)
      with Suc.prems(2) a False q have "t = s''" by simp
      with same' show ?thesis by simp
    next
      case (Inr r')
      show ?thesis
      proof (cases "status r' = 206")
        case True
        with Suc.prems(2) a False q Inr have "retry_loop fuel e rng etag r' s'' = Some (k, t)"
          by simp
        with same'(2)
        have "enqueued (writable t) = enqueued (writable s'') \<and> currentSize t = currentSize s'' \<and>
              state (writable t) = state (writable s'')"
          by (rule Suc.IH)
        with same' show ?thesis by simp
      next
        case other: False
        with Suc.prems(2) a False q Inr
        have "t = s''\<lparr>writable := abort (''Status Code ('' @ digits (status r') @ '') wasn't 206'') (writable s'')\<rparr>"
          by simp
        with same' show ?thesis by (simp add: abort_def)
      qed
    qed
  qed
qed

text \<open>All the bytes of a session come from its first response.\<close>

lemma only_first_response_delivered:
  assumes "retry_loop (Suc fuel) e rng etag r s = Some (k, t)"
  shows "enqueued (writable t) = enqueued (writable (snd (attempt r s)))"
proof -
  obtain ok s' where a: "attempt r s = (ok, s')" by (cases "attempt r s")
  show ?thesis
  proof (cases "ok \<or> aborted e (length (requests s'))")
    case True
    with assms a have "t = s'" by (cases ok) (auto split: if_splits)
    with a show ?thesis by simp
  next
    case False
    with a have nw: "state (writable s') \<noteq> Writable" using failed_attempt_not_writable by simp
    obtain res s'' where q: "retry_request e rng etag s' = (res, s'')"
      by (cases "retry_request e rng etag s'")
    from retry_request_effect [OF q] nw
    have same': "enqueued (writable s'') = enqueued (writable s')" "state (writable s'') \<noteq> Writable"
      by simp_all
    show ?thesis
    proof (cases res)
      case (Inl err)
      with assms a False q have "t = s''" by simp
      with same' a show ?thesis by simp
    next
      case (Inr r')
      show ?thesis
      proof (cases "status r' = 206")
        case True
        with assms a False q Inr have "retry_loop fuel e rng etag r' s'' = Some (k, t)"
          by simp
        with same'(2) have "enqueued (writable t) = enqueued (writable s'')"
          using retry_loop_not_writable by blast
        with same' a show ?thesis by simp
      next
        case other: False
        with assms a False q Inr
        have "t = s''\<lparr>writable := abort (''Status Code ('' @ digits (status r') @ '') wasn't 206'') (writable s'')\<rparr>"
          by simp
        with same' a show ?thesis by (simp add: abort_def)
      qed
    qed
  qed
qed

text \<open>
  A retry is made only after a failed attempt, so the call of \<^verbatim>\<open>abort\<close> on line 129
  always finds a stream that is no longer writable and leaves its state as it is: the
  reader sees the error of the failed pipe, and the message of line 129 reaches nobody.
  The loop does return in that turn, and the retry just made is the last request.
\<close>

lemma retry_not_206_returns:
  assumes "attempt response s = (False, s')" and "\<not> aborted e (length (requests s'))"
    and "retry_request e rng etag s' = (Inr response', s'')" and "status response' \<noteq> 206"
  shows "\<exists>t. retry_loop (Suc fuel) e rng etag response s = Some (Returned, t) \<and>
           calls (writable t) =
             calls (writable s') @
               [Abort (''Status Code ('' @ digits (status response') @ '') wasn't 206'')] \<and>
           state (writable t) = state (writable s') \<and>
           state (writable s') \<noteq> Writable \<and>
           requests t = requests s' @ [init t] \<and>
           enqueued (writable t) = enqueued (writable s')"
proof -
  let ?msg = "''Status Code ('' @ digits (status response') @ '') wasn't 206''"
  let ?t = "s''\<lparr>writable := abort ?msg (writable s'')\<rparr>"
  from retry_request_effect [OF assms(3)]
  have eff: "requests s'' = requests s' @ [init s'']" "writable s'' = writable s'"
    by simp_all
  from assms(1) have nw: "state (writable s') \<noteq> Writable" by (rule failed_attempt_not_writable)
  have "retry_loop (Suc fuel) e rng etag response s = Some (Returned, ?t)"
    using assms by simp
  moreover have "calls (writable ?t) = calls (writable s') @ [Abort ?msg]"
    using eff by (simp add: abort_def)
  moreover have "state (writable ?t) = state (writable s')"
    using eff nw by (simp add: abort_def)
  moreover have "requests ?t = requests s' @ [init ?t]"
    using eff by simp
  moreover have "enqueued (writable ?t) = enqueued (writable s')"
    using eff by (simp add: abort_def)
  ultimately show ?thesis using nw by blast
qed

text \<open>
  When the body of a response fails while the stream is writable, the pipe errors the
  stream with the error of the body, whether the signal is set or not. With the signal
  set the loop returns at once: it makes no call on the stream and no request.
\<close>

lemma failed_pipe_errors_stream:
  assumes "body response = Some b" and "ending b = Fails err"
    and "state (writable s) = Writable" and "aborted e (length (requests s))"
  shows "\<exists>t. retry_loop (Suc fuel) e rng etag response s = Some (Returned, t) \<and>
           state (writable t) = Errored err \<and>
           calls (writable t) = calls (writable s) \<and>
           requests t = requests s"
proof -
  let ?p = "pump (chunks b) s"
  let ?t = "?p\<lparr>writable := (writable ?p)\<lparr>state := Errored err\<rparr>\<rparr>"
  from assms(1-3) have p: "pipeTo (body response) s = (False, ?t)"
    by (simp add: pipeTo_def Let_def)
  then have a: "attempt response s = (False, ?t)" by (rule attempt_pipe_failed)
  from pump_frame [of "chunks b" s]
  have fr: "requests ?t = requests s" "calls (writable ?t) = calls (writable s)" by simp_all
  with assms(4) a have "retry_loop (Suc fuel) e rng etag response s = Some (Returned, ?t)"
    by simp
  with fr show ?thesis by simp
qed

subsection \<open>Example sessions\<close>

text \<open>
  A caller asks for bytes 100 to 199 and the body fails after thirty bytes. With the key
  \<^verbatim>\<open>range\<close> in \<^verbatim>\<open>init.headers\<close> the retry asks for \<^verbatim>\<open>bytes=130-199\<close>, and with a
  caller's end of 999 every retry keeps that end. With the key \<^verbatim>\<open>Range\<close> the object of
  lines 121 to 125 holds both keys, and the request carries both values under the one
  header name. The bodies of the retried responses are not delivered.
\<close>

lemma retry_range_bounded_example:
  "map_option (range_headers \<circ> snd)
     (snd (run 2 server_dropping \<lparr>headers = Some (Object [(''range'', Text ''bytes=100-199'')])\<rparr>)) =
   Some [Some ''bytes=100-199'', Some ''bytes=130-199'']"
  by code_simp

lemma retry_range_upper_bound_example:
  "map_option (range_headers \<circ> snd)
     (snd (run 4 server_resuming \<lparr>headers = Some (Object [(''range'', Text ''bytes=0-999'')])\<rparr>)) =
   Some [Some ''bytes=0-999'', Some ''bytes=130-999'', Some ''bytes=130-999'', Some ''bytes=130-999'']"
  by code_simp

lemma retry_range_capitalised_example:
  "map_option (range_headers \<circ> snd)
     (snd (run 2 server_dropping \<lparr>headers = Some (Object [(''Range'', Text ''bytes=100-199'')])\<rparr>)) =
   Some [Some ''bytes=100-199'', Some ''bytes=100-199, bytes=130-199'']"
  by code_simp

lemma resumed_bytes_not_delivered_example:
  "map_option (delivered \<circ> snd)
     (snd (run 4 server_resuming \<lparr>headers = Some (Object [(''range'', Text ''bytes=100-199'')])\<rparr>)) =
   Some (ten_bytes @ ten_bytes @ ten_bytes)"
  by code_simp

text \<open>
  One request with its headers given as a plain object, as a \<^verbatim>\<open>Headers\<close> instance and
  as an array of pairs. From the plain object the retry keeps the caller's \<^verbatim>\<open>accept\<close>
  header. From the other two it loses it: of the instance nothing is copied, and the
  pairs come back as the headers \<open>0\<close> and \<open>1\<close>.
\<close>

lemma retry_headers_object_example:
  "map_option (map (map_option entries \<circ> headers) \<circ> requests \<circ> snd)
     (snd (run 2 server_dropping as_object)) =
   Some [Some [(''accept'', ''*/*''), (''range'', ''bytes=100-199'')],
         Some [(''accept'', ''*/*''), (''range'', ''bytes=130-199''), (''if-match'', ''v1'')]]"
  by code_simp

lemma retry_headers_instance_example:
  "map_option (map (map_option entries \<circ> headers) \<circ> requests \<circ> snd)
     (snd (run 2 server_dropping as_instance)) =
   Some [Some [(''accept'', ''*/*''), (''range'', ''bytes=100-199'')],
         Some [(''range'', ''bytes=130-199''), (''if-match'', ''v1'')]]"
  by code_simp

lemma retry_headers_pairs_example:
  "map_option (map (map_option entries \<circ> headers) \<circ> requests \<circ> snd)
     (snd (run 2 server_dropping as_pairs)) =
   Some [Some [(''accept'', ''*/*''), (''range'', ''bytes=100-199'')],
         Some [(''0'', ''accept,*/*''), (''1'', ''range,bytes=100-199''),
               (''range'', ''bytes=130-199''), (''if-match'', ''v1'')]]"
  by code_simp

section \<open>The claims\<close>

subsection \<open>C1: the bytes delivered are the bytes of the resource\<close>

text \<open>
  C1 (code differs). The claim: the bytes delivered over a session are exactly the
  bytes of the resource from the requested start to its end, and with a first response
  \<^verbatim>\<open>Content-Range: bytes <start>-<end>/<total>\<close> the budget is the inclusive span, so
  that the byte at offset \<^verbatim>\<open><end>\<close> is forwarded. Line 98 sets the budget to
  \<^verbatim>\<open>end - start\<close>, one less than the inclusive span: a ten-byte resource announced as
  \<^verbatim>\<open>bytes 0-9/10\<close> and sent whole in one chunk is delivered as nine bytes, and the stream
  is then closed. (For every session, \<open>delivered_below_span\<close> above: of the bytes from
  \<open>a\<close> to \<open>z\<close> at most \<open>z - a\<close> are delivered.)
\<close>

theorem download_drops_last_byte:
  "run (Suc 0) server_ten \<lparr>headers = Some (Object [(''range'', Text ''bytes=0-9'')])\<rparr> =
     (Inr [(''content-range'', ''bytes 0-9/10''), (''etag'', ''v1'')],
      Some (Returned,
        \<lparr>init = \<lparr>headers = Some (Object [(''range'', Text ''bytes=0-9'')])\<rparr>,
         currentSize = Num 9, bytesLeft = Num 0,
         writable = \<lparr>state = Closed, enqueued = [[0, 1, 2, 3, 4, 5, 6, 7, 8]], calls = [Close]\<rparr>,
         requests = [\<lparr>headers = Some (Object [(''range'', Text ''bytes=0-9'')])\<rparr>]\<rparr>))"
  by code_simp

subsection \<open>C2: the Range header of a retry\<close>

text \<open>
  C2 (code differs). The claim: every retry asks for
  \<^verbatim>\<open>bytes=<currentSize>-<originalRequestedEnd-or-empty>\<close>, the end being the caller's
  own. When the caller's range is open-ended, \<^verbatim>\<open>bytes=100-\<close>, line 70 reads the empty
  end as \<^verbatim>\<open>Number("")\<close>, which is \<open>0\<close>, and line 123 prints it: after thirty bytes the
  retry asks for \<^verbatim>\<open>bytes=130-0\<close>, not \<^verbatim>\<open>bytes=130-\<close>.
\<close>

theorem retry_range_open_end_is_zero:
  "map_option (range_headers \<circ> snd)
     (snd (run 2 server_dropping \<lparr>headers = Some (Object [(''range'', Text ''bytes=100-'')])\<rparr>)) =
   Some [Some ''bytes=100-'', Some ''bytes=130-0'']"
  by code_simp

subsection \<open>C3: a Content-Range with another unit\<close>

text \<open>
  C3 (code differs). The claim: a first response whose \<^verbatim>\<open>Content-Range\<close> does not begin
  with \<^verbatim>\<open>bytes \<close> aborts the output stream, and the promise of \<^verbatim>\<open>download\<close> does not
  reject. Line 81 throws inside \<^verbatim>\<open>download\<close>, outside any \<^verbatim>\<open>try\<close>: the promise rejects
  with the TypeError, and the stream of line 48 is neither aborted nor handed to the
  caller. No byte has been forwarded.
\<close>

theorem malformed_content_range_rejects:
  "download server_items \<lparr>headers = None\<rparr> =
     (\<lparr>init = \<lparr>headers = Some (Object [])\<rparr>, currentSize = Num 0, bytesLeft = Num 0,
       writable = \<lparr>state = Writable, enqueued = [], calls = []\<rparr>,
       requests = [\<lparr>headers = Some (Object [])\<rparr>]\<rparr>,
      Inl (TypeError ''Content-Range header has unsupported unit: items 0-9/10''))"
  by code_simp

subsection \<open>C4: a first response with a status that is not accepted\<close>

text \<open>
  C4. For every first response with a status other than 200, 201 and 206, the promise
  resolves with the headers of that response, the output stream is errored by one call
  of \<^verbatim>\<open>abort\<close> whose message holds the status in decimal and the status text, nothing
  has been written to it, and the request log holds the first request only, however much
  fuel the session is given: no background loop is started.
\<close>

theorem rejected_status_aborts:
  assumes "fetch e 0 (default_headers i) = Inr r" and "status r \<notin> {200, 201, 206}"
  shows "\<exists>s. run fuel e i = (Inr (response_headers r), Some (Returned, s)) \<and>
           state (writable s) =
             Errored (''Invalid Status Code ('' @ digits (status r) @ ''): '' @ statusText r) \<and>
           calls (writable s) =
             [Abort (''Invalid Status Code ('' @ digits (status r) @ ''): '' @ statusText r)] \<and>
           enqueued (writable s) = [] \<and>
           requests s = [default_headers i]"
  using assms
  by (simp add: run_def download_def accepted_def abort_def new_TransformStream_def Let_def)

text \<open>C4 at a response 404 Not Found.\<close>

theorem rejected_status_aborts_witness:
  "fetch (always not_found) 0 (default_headers \<lparr>headers = None\<rparr>) = Inr not_found \<and>
   status not_found \<notin> {200, 201, 206} \<and>
   (\<exists>s. run 0 (always not_found) \<lparr>headers = None\<rparr> =
          (Inr [(''content-type'', ''text/plain'')], Some (Returned, s)) \<and>
        state (writable s) = Errored ''Invalid Status Code (404): Not Found'' \<and>
        calls (writable s) = [Abort ''Invalid Status Code (404): Not Found''] \<and>
        enqueued (writable s) = [] \<and>
        requests s = [\<lparr>headers = Some (Object [])\<rparr>])"
proof -
  have f: "fetch (always not_found) 0 (default_headers \<lparr>headers = None\<rparr>) = Inr not_found"
    by (simp add: always_def)
  have st: "status not_found \<notin> {200, 201, 206}" by (simp add: not_found_def)
  have dg: "digits (status not_found) = ''404''" by code_simp
  from rejected_status_aborts [OF f st, of 0] f st show ?thesis
    by (simp add: dg) (simp add: not_found_def default_headers_def)
qed

subsection \<open>C5: a retry that is not answered 206\<close>

text \<open>
  C5 (code differs). The claim: when a retry is answered with a status other than 206,
  the output stream is aborted with a message naming that status, no further retry is
  made, and the loop ends. Here the body of the first response fails after thirty bytes
  and the retry is answered 416. The loop ends after that one retry, whatever fuel is
  left, and line 129 calls \<^verbatim>\<open>abort\<close> with \<^verbatim>\<open>Status Code (416) wasn't 206\<close>. But the
  retry was made because the pipe of line 114 had failed, and that pipe, which leaves
  \<^verbatim>\<open>preventAbort\<close> at its default, had already errored the stream with the error of
  the body: the call of line 129 changes nothing, and what the reader receives is
  \<^verbatim>\<open>connection reset\<close>, with no status in it. (For every retry, \<open>retry_not_206_returns\<close>
  above: the call leaves the state of the stream as the failed attempt left it.)
\<close>

theorem retry_not_206_message_is_lost:
  "run (Suc (Suc fuel)) server_dropping \<lparr>headers = None\<rparr> =
     (Inr [(''content-range'', ''bytes 100-199/200''), (''etag'', ''v1'')],
      Some (Returned,
        \<lparr>init = \<lparr>headers = Some (Object [(''range'', Text ''bytes=130-''),
                                           (''if-match'', Text ''v1'')])\<rparr>,
         currentSize = Num 130, bytesLeft = Num 69,
         writable = \<lparr>state = Errored ''connection reset'',
                     enqueued = [[0, 1, 2, 3, 4, 5, 6, 7, 8, 9], [0, 1, 2, 3, 4, 5, 6, 7, 8, 9],
                                 [0, 1, 2, 3, 4, 5, 6, 7, 8, 9]],
                     calls = [Abort ''Status Code (416) wasn't 206'']\<rparr>,
         requests = [\<lparr>headers = Some (Object [])\<rparr>,
                     \<lparr>headers = Some (Object [(''range'', Text ''bytes=130-''),
                                               (''if-match'', Text ''v1'')])\<rparr>]\<rparr>))"
  by code_simp

subsection \<open>C6: a stream error while the signal is set\<close>

text \<open>
  C6 (code differs). The claim: if the caller's signal is set when the body fails, the
  session ends silently: the output stream receives neither a close nor an abort, and no
  retry is made. Here the body fails after thirty bytes with the signal set. The loop
  returns on line 118, \<^verbatim>\<open>download\<close> has made no call of \<^verbatim>\<open>close\<close> or \<^verbatim>\<open>abort\<close>, and
  the first request is the only one. But the stream has received an abort all the same:
  the failed pipe of line 114, which leaves \<^verbatim>\<open>preventAbort\<close> at its default, has
  errored it with the error of the body. (For every such body, \<open>failed_pipe_errors_stream\<close>
  above.)
\<close>

theorem cancelled_session_is_aborted:
  "run (Suc fuel) server_cancelled \<lparr>headers = None\<rparr> =
     (Inr [(''content-range'', ''bytes 100-199/200''), (''etag'', ''v1'')],
      Some (Returned,
        \<lparr>init = \<lparr>headers = Some (Object [])\<rparr>,
         currentSize = Num 130, bytesLeft = Num 69,
         writable = \<lparr>state = Errored ''connection reset'',
                     enqueued = [[0, 1, 2, 3, 4, 5, 6, 7, 8, 9], [0, 1, 2, 3, 4, 5, 6, 7, 8, 9],
                                 [0, 1, 2, 3, 4, 5, 6, 7, 8, 9]],
                     calls = []\<rparr>,
         requests = [\<lparr>headers = Some (Object [])\<rparr>]\<rparr>))"
  by code_simp

subsection \<open>C7: the total of a Content-Range\<close>

text \<open>
  C7 (code differs). The claim: the parsed total is the integer after the slash, and
  unbounded exactly when that text is a star. Line 87 takes the substring from the slash
  itself, so \<^verbatim>\<open>totalSize\<close> is \<^verbatim>\<open>/200\<close> or \<^verbatim>\<open>/*\<close> and never equals the star; line 91 then
  converts the whole header value, which is no numeral. The total is NaN in both cases
  (and for every header value, \<open>contentRange_total\<close> above).
\<close>

theorem content_range_total_is_NaN:
  "contentRange (partial_content ''bytes 100-199/200'' None) =
     Inr (Some \<lparr>start = Num 100, end' = Num 199, total = NaN\<rparr>) \<and>
   contentRange (partial_content ''bytes 0-9/*'' None) =
     Inr (Some \<lparr>start = Num 0, end' = Num 9, total = NaN\<rparr>)"
  by code_simp

subsection \<open>C8: the caller's Range header\<close>

text \<open>
  C8 (code differs). The claim: of \<^verbatim>\<open>bytes=<start>-<end>[,...]\<close> the parser yields the
  integers \<^verbatim>\<open><start>\<close> and \<^verbatim>\<open><end>\<close> of the first segment, and an absent end when
  \<^verbatim>\<open><end>\<close> is empty. Line 69 converts the substring from index 0, which still holds
  \<^verbatim>\<open>bytes=\<close>, so the start is NaN (for every such header, \<open>range_start\<close> above); and
  line 70 converts an empty end to \<open>0\<close>. Only the end of the first segment is read as the
  claim says.
\<close>

theorem range_start_is_NaN_and_empty_end_is_zero:
  "range' \<lparr>headers = Some (Object [(''Range'', Text ''bytes=0-999'')])\<rparr> =
     Some \<lparr>start = NaN, end' = Num 999\<rparr> \<and>
   range' \<lparr>headers = Some (Object [(''Range'', Text ''bytes=100-'')])\<rparr> =
     Some \<lparr>start = NaN, end' = Num 0\<rparr> \<and>
   range' \<lparr>headers = Some (Object [(''Range'', Text ''bytes=0-99,200-299'')])\<rparr> =
     Some \<lparr>start = NaN, end' = Num 99\<rparr>"
  by code_simp

subsection \<open>C9: the sum of the two counters\<close>

text \<open>
  C9 (code differs). The claim: in every session with a finite budget the sum of
  \<^verbatim>\<open>currentSize\<close> and \<^verbatim>\<open>bytesLeft\<close> stays at the declared end of the resource, each
  chunk moves its length from the one counter to the other, and \<^verbatim>\<open>bytesLeft\<close> never
  becomes negative, each chunk being cut to the budget. A first response with
  \<^verbatim>\<open>Content-Range: bytes 5-2/10\<close>, whose end lies before its start, is invalid
  information, for which lines 11 and 12 promise an abort of the stream. Lines 73 to 98
  check nothing but the unit: the promise resolves, the loop is started with the budget
  \<open>2 - 5 = -3\<close>, of a chunk of four bytes \<^verbatim>\<open>subarray(0, -3)\<close> forwards one, the budget
  goes to \<open>-4\<close>, and the stream is closed as after a complete download.
\<close>

theorem reversed_content_range_is_not_refused:
  "download server_reversed \<lparr>headers = None\<rparr> =
     (\<lparr>init = \<lparr>headers = Some (Object [])\<rparr>, currentSize = Num 5, bytesLeft = Num (- 3),
       writable = \<lparr>state = Writable, enqueued = [], calls = []\<rparr>,
       requests = [\<lparr>headers = Some (Object [])\<rparr>]\<rparr>,
      Inr ([(''content-range'', ''bytes 5-2/10''), (''etag'', ''v1'')],
           Some (Spawned (partial_content ''bytes 5-2/10'' (Some \<lparr>chunks = [[0, 1, 2, 3]], ending = Ends\<rparr>))
                   None (Some ''v1'')))) \<and>
   run (Suc 0) server_reversed \<lparr>headers = None\<rparr> =
     (Inr [(''content-range'', ''bytes 5-2/10''), (''etag'', ''v1'')],
      Some (Returned,
        \<lparr>init = \<lparr>headers = Some (Object [])\<rparr>, currentSize = Num 6, bytesLeft = Num (- 4),
         writable = \<lparr>state = Closed, enqueued = [[0]], calls = [Close]\<rparr>,
         requests = [\<lparr>headers = Some (Object [])\<rparr>]\<rparr>))"
  by code_simp

subsection \<open>C10: the caller's init object\<close>

text \<open>
  C10. When \<^verbatim>\<open>download\<close> returns or rejects, the caller's \<^verbatim>\<open>init\<close> has its old headers,
  or the empty object where it had none. Every retry assigns to \<^verbatim>\<open>init.headers\<close> a new
  plain object, whatever kind of value was there before: its \<^verbatim>\<open>range\<close> and \<^verbatim>\<open>if-match\<close>
  properties are the new ones, its other properties are those that the spread of the old
  value gives, and the request is made with that very \<^verbatim>\<open>init\<close>. When the loop has
  returned after at least one retry, \<^verbatim>\<open>init.headers\<close> is such an object.
\<close>

theorem init_headers_overwritten:
  "init (fst (download e i)) =
     i\<lparr>headers := Some (case headers i of None \<Rightarrow> Object [] | Some h \<Rightarrow> h)\<rparr> \<and>
   (\<forall>s res s'. retry_request e rng etag s = (res, s') \<longrightarrow>
      last (requests s') = init s' \<and>
      (\<exists>hs. init s' = (init s)\<lparr>headers := Some (Object hs)\<rparr> \<and>
            map_of hs ''range'' =
              Some (Text (''bytes='' @ toString (currentSize s) @ ''-'' @
                            (case rng of None \<Rightarrow> [] | Some r \<Rightarrow> toString (end' r)))) \<and>
            map_of hs ''if-match'' = Some (Text (case etag of None \<Rightarrow> [] | Some t \<Rightarrow> t)) \<and>
            (\<forall>k. k \<noteq> ''range'' \<longrightarrow> k \<noteq> ''if-match'' \<longrightarrow>
                 map_of hs k = map_of (spread (headers (init s))) k))) \<and>
   (\<forall>fuel r s k t. retry_loop fuel e rng etag r s = Some (k, t) \<longrightarrow> requests t \<noteq> requests s \<longrightarrow>
      (\<exists>h n. headers (init t) = Some (Object (retry_headers h n rng etag))))"
proof (intro conjI allI impI)
  show "init (fst (download e i)) =
          i\<lparr>headers := Some (case headers i of None \<Rightarrow> Object [] | Some h \<Rightarrow> h)\<rparr>"
    by (simp add: download_init default_headers_def)
next
  fix s res s'
  assume q: "retry_request e rng etag s = (res, s')"
  from retry_request_effect [OF q] show "last (requests s') = init s'" by simp
  let ?hs = "retry_headers (headers (init s)) (currentSize s) rng etag"
  from retry_request_effect [OF q] have "init s' = (init s)\<lparr>headers := Some (Object ?hs)\<rparr>" by simp
  then show "\<exists>hs. init s' = (init s)\<lparr>headers := Some (Object hs)\<rparr> \<and>
            map_of hs ''range'' =
              Some (Text (''bytes='' @ toString (currentSize s) @ ''-'' @
                            (case rng of None \<Rightarrow> [] | Some r \<Rightarrow> toString (end' r)))) \<and>
            map_of hs ''if-match'' = Some (Text (case etag of None \<Rightarrow> [] | Some t \<Rightarrow> t)) \<and>
            (\<forall>k. k \<noteq> ''range'' \<longrightarrow> k \<noteq> ''if-match'' \<longrightarrow>
                 map_of hs k = map_of (spread (headers (init s))) k)"
    by (intro exI [of _ ?hs]) (simp add: retry_headers_entries)
next
  fix fuel r s k t
  assume "retry_loop fuel e rng etag r s = Some (k, t)" and "requests t \<noteq> requests s"
  then show "\<exists>h n. headers (init t) = Some (Object (retry_headers h n rng etag))"
    using retry_loop_overwritten by blast
qed

text \<open>
  C10 at a call without headers, at a retry whose old headers are an array of pairs, and
  at a loop that makes one retry after four bytes.
\<close>

theorem init_headers_overwritten_witness:
  "init (fst (download (always not_satisfiable) \<lparr>headers = None\<rparr>)) = \<lparr>headers = Some (Object [])\<rparr> \<and>
   retry_request (always not_satisfiable) None None (fresh\<lparr>init := as_pairs\<rparr>) =
     (Inr not_satisfiable,
      fresh\<lparr>init := \<lparr>headers = Some (Object [(''0'', Array [''accept'', ''*/*'']),
                                              (''1'', Array [''range'', ''bytes=100-199'']),
                                              (''range'', Text ''bytes=0-''),
                                              (''if-match'', Text [])])\<rparr>,
            requests := [\<lparr>headers = Some (Object [])\<rparr>,
                         \<lparr>headers = Some (Object [(''0'', Array [''accept'', ''*/*'']),
                                                   (''1'', Array [''range'', ''bytes=100-199'']),
                                                   (''range'', Text ''bytes=0-''),
                                                   (''if-match'', Text [])])\<rparr>]\<rparr>) \<and>
   map_of (spread (headers as_pairs)) ''1'' = Some (Array [''range'', ''bytes=100-199'']) \<and>
   retry_loop (Suc 0) (always not_satisfiable) None None cut_short fresh =
     Some (Returned,
       \<lparr>init = \<lparr>headers = Some (Object [(''range'', Text ''bytes=4-''), (''if-match'', Text [])])\<rparr>,
        currentSize = Num 4, bytesLeft = Num 6,
        writable = \<lparr>state = Errored ''connection reset'', enqueued = [[0, 1, 2, 3]],
                    calls = [Abort ''Status Code (416) wasn't 206'']\<rparr>,
        requests = [\<lparr>headers = Some (Object [])\<rparr>,
                    \<lparr>headers = Some (Object [(''range'', Text ''bytes=4-''), (''if-match'', Text [])])\<rparr>]\<rparr>) \<and>
   (\<exists>h n. Some (Object [(''range'', Text ''bytes=4-''), (''if-match'', Text [])]) =
            Some (Object (retry_headers h n None None)))"
  (is "?a \<and> ?q \<and> ?m \<and> ?l \<and> ?x")
proof -
  note inst = init_headers_overwritten [of "always not_satisfiable" "\<lparr>headers = None\<rparr>" None None]
  from inst [THEN conjunct1] have a: ?a by simp
  have q: ?q by code_simp
  from inst [THEN conjunct2, THEN conjunct1, rule_format, OF q]
  obtain hs where hs: "init
       (fresh\<lparr>init := \<lparr>headers = Some (Object [(''0'', Array [''accept'', ''*/*'']),
                                              (''1'', Array [''range'', ''bytes=100-199'']),
                                              (''range'', Text ''bytes=0-''),
                                              (''if-match'', Text [])])\<rparr>,
            requests := [\<lparr>headers = Some (Object [])\<rparr>,
                         \<lparr>headers = Some (Object [(''0'', Array [''accept'', ''*/*'']),
                                                   (''1'', Array [''range'', ''bytes=100-199'']),
                                                   (''range'', Text ''bytes=0-''),
                                                   (''if-match'', Text [])])\<rparr>]\<rparr>) =
       (init (fresh\<lparr>init := as_pairs\<rparr>))\<lparr>headers := Some (Object hs)\<rparr>"
    and others: "\<forall>k. k \<noteq> ''range'' \<longrightarrow> k \<noteq> ''if-match'' \<longrightarrow>
                   map_of hs k = map_of (spread (headers (init (fresh\<lparr>init := as_pairs\<rparr>)))) k"
    by blast
  from hs have "hs = [(''0'', Array [''accept'', ''*/*'']), (''1'', Array [''range'', ''bytes=100-199'']),
                      (''range'', Text ''bytes=0-''), (''if-match'', Text [])]"
    by (simp add: as_pairs_def)
  with others [rule_format, of "''1''"] have m: ?m by simp
  have l: ?l by code_simp
  have ne: "requests
       \<lparr>init = \<lparr>headers = Some (Object [(''range'', Text ''bytes=4-''), (''if-match'', Text [])])\<rparr>,
        currentSize = Num 4, bytesLeft = Num 6,
        writable = \<lparr>state = Errored ''connection reset'', enqueued = [[0, 1, 2, 3]],
                    calls = [Abort ''Status Code (416) wasn't 206'']\<rparr>,
        requests = [\<lparr>headers = Some (Object [])\<rparr>,
                    \<lparr>headers = Some (Object [(''range'', Text ''bytes=4-''), (''if-match'', Text [])])\<rparr>]\<rparr>
       \<noteq> requests fresh"
    by (simp add: fresh_def)
  from inst [THEN conjunct2, THEN conjunct2, rule_format, OF l ne] have x: ?x by simp
  from a q m l x show ?thesis by simp
qed

end
